theory Spec2Isabelle
  imports Complex_Main
begin

section \<open>Numbers and rounding\<close>

text \<open>
  Python floats are modelled as real numbers: the arithmetic of the advisory system is
  read as exact arithmetic, and the special values (infinities, NaN) are outside the model.
  Where pandas yields NaN (a quantile of an empty series) the model yields \<open>None\<close>, and a
  comparison against it is false, as a comparison against NaN is.
\<close>

definition round_half_even :: "real \<Rightarrow> int" where
  "round_half_even x =
     (let f = \<lfloor>x\<rfloor>; d = x - of_int f
      in if d < 1 / 2 then f else if 1 / 2 < d then f + 1 else if even f then f else f + 1)"

text \<open>\<open>round(x, n)\<close> of Python, ties to the even neighbour.\<close>

definition py_round :: "real \<Rightarrow> nat \<Rightarrow> real" where
  "py_round x n = of_int (round_half_even (x * 10 ^ n)) / 10 ^ n"

section \<open>modules/fund\_filtering.py\<close>

subsection \<open>The fund universe\<close>

text \<open>
  A row of the fund DataFrame. The column \<open>3yr_return\<close> is the field \<open>return_3yr\<close>.
  A DataFrame is the list of its rows, in order.
\<close>

record fund =
  fund_name :: string
  category :: string
  return_3yr :: real
  expense_ratio :: real
  sharpe_ratio :: real
  alpha :: real
  age_years :: int

text \<open>A row of a DataFrame to which \<open>get_top_funds\<close> has added the column \<open>score\<close>.\<close>

record scored_fund = fund +
  score :: real

subsection \<open>get\_expense\_threshold\<close>

definition thresholds :: "(string \<times> real) list" where
  "thresholds =
     [(''large_cap'', 2.0), (''mid_cap'', 2.25), (''small_cap'', 2.5), (''debt'', 1.5),
      (''hybrid'', 2.0)]"

definition get_expense_threshold :: "string \<Rightarrow> real" where
  "get_expense_threshold c = (case map_of thresholds c of Some t \<Rightarrow> t | None \<Rightarrow> 2.0)"

subsection \<open>Series.quantile\<close>

text \<open>
  \<open>Series.quantile(q)\<close> of pandas with its default linear interpolation: on the sorted
  values \<open>s\<close> of a series of \<open>n\<close> entries the position is \<open>h = q * (n - 1)\<close>, and the
  result interpolates between \<open>s[floor h]\<close> and \<open>s[ceil h]\<close>. An empty series has no
  quantile (NaN).
\<close>

definition quantile :: "real list \<Rightarrow> real \<Rightarrow> real option" where
  "quantile xs q =
     (if xs = [] then None
      else let s = sort xs;
               h = q * real (length xs - 1);
               lo = nat \<lfloor>h\<rfloor>;
               hi = nat \<lceil>h\<rceil>
           in Some (s ! lo + (h - real lo) * (s ! hi - s ! lo)))"

text \<open>\<open>series > series.quantile(q)\<close> at one entry: false against NaN.\<close>

definition gt_quantile :: "real \<Rightarrow> real option \<Rightarrow> bool" where
  "gt_quantile x m = (case m of None \<Rightarrow> False | Some v \<Rightarrow> v < x)"

subsection \<open>apply\_category\_filters\<close>

definition apply_category_filters :: "fund list \<Rightarrow> string \<Rightarrow> fund list" where
  "apply_category_filters category_funds c =
     filter (\<lambda>f.
        gt_quantile (return_3yr f) (quantile (map return_3yr category_funds) 0.5) \<and>
        expense_ratio f < get_expense_threshold c \<and>
        3 < age_years f \<and>
        gt_quantile (sharpe_ratio f) (quantile (map sharpe_ratio category_funds) 0.75))
      category_funds"

subsection \<open>normalize and get\_top\_funds\<close>

text \<open>
  \<open>normalize\<close> is only called on the columns of a non-empty frame; on an empty series
  it returns the empty series.
\<close>

definition normalize :: "real list \<Rightarrow> real list" where
  "normalize series =
     (if series = [] then []
      else let min_val = Min (set series); max_val = Max (set series)
           in if max_val = min_val then map (\<lambda>x. x * 0) series
              else map (\<lambda>x. (x - min_val) / (max_val - min_val)) series)"

definition with_score :: "fund \<Rightarrow> real \<Rightarrow> scored_fund" where
  "with_score f s = fund.extend f (scored_fund.fields s)"

text \<open>
  \<open>nlargest(5, 'score')\<close>: the five rows of largest score, in decreasing order of score,
  rows of equal score in their order in the frame.
\<close>

definition nlargest :: "nat \<Rightarrow> scored_fund list \<Rightarrow> scored_fund list" where
  "nlargest n rows = take n (sort_key (\<lambda>r. - score r) rows)"

definition get_top_funds :: "fund list \<Rightarrow> scored_fund list" where
  "get_top_funds filtered_funds =
     (let r = normalize (map return_3yr filtered_funds);
          e = normalize (map (\<lambda>f. - expense_ratio f) filtered_funds);
          s = normalize (map sharpe_ratio filtered_funds);
          a = normalize (map alpha filtered_funds);
          scores = map (\<lambda>i. 0.4 * r ! i + 0.2 * e ! i + 0.2 * s ! i + 0.2 * a ! i)
                     [0 ..< length filtered_funds]
      in nlargest 5 (map (\<lambda>(f, sc). with_score f sc) (zip filtered_funds scores)))"

subsection \<open>get\_risk\_category\_from\_score\<close>

text \<open>The dict \<open>{"debt": d, "equity": e}\<close>.\<close>

record 'a allocation =
  debt :: 'a
  equity :: 'a

definition get_risk_category_from_score :: "real \<Rightarrow> string \<times> real allocation" where
  "get_risk_category_from_score risk_score =
     (if risk_score \<le> 0.2 then (''Very Conservative'', \<lparr>debt = 0.85, equity = 0.15\<rparr>)
      else if risk_score \<le> 0.4 then (''Conservative'', \<lparr>debt = 0.70, equity = 0.30\<rparr>)
      else if risk_score \<le> 0.6 then (''Moderate'', \<lparr>debt = 0.55, equity = 0.45\<rparr>)
      else if risk_score \<le> 0.8 then (''Growth'', \<lparr>debt = 0.35, equity = 0.65\<rparr>)
      else (''Aggressive'', \<lparr>debt = 0.20, equity = 0.80\<rparr>))"

subsection \<open>filter\_funds\<close>

text \<open>A value of the dict \<open>filtered_funds\<close>.\<close>

record category_entry =
  allocation_pct :: real
  funds :: "scored_fund list"

definition equity_split :: "(string \<times> real) list" where
  "equity_split = [(''large_cap'', 0.5), (''mid_cap'', 0.3), (''small_cap'', 0.2)]"

definition debt_split :: "(string \<times> real) list" where
  "debt_split = [(''debt'', 1.0)]"

definition restrict_category :: "fund list \<Rightarrow> string \<Rightarrow> fund list" where
  "restrict_category fund_universe c = filter (\<lambda>f. category f = c) fund_universe"

text \<open>
  The loop over the items of a split, for the share \<open>a\<close> of the asset class: the entries it
  adds to \<open>filtered_funds\<close>, in the order of insertion. The two \<open>continue\<close> statements are
  the two branches that add nothing.
\<close>

fun process_split :: "fund list \<Rightarrow> real \<Rightarrow> (string \<times> real) list \<Rightarrow> (string \<times> category_entry) list" where
  "process_split fund_universe a [] = []"
| "process_split fund_universe a ((c, split_pct) # rest) =
     (let category_funds = restrict_category fund_universe c
      in if category_funds = [] then process_split fund_universe a rest
         else let filtered = apply_category_filters category_funds c
              in if filtered = [] then process_split fund_universe a rest
                 else (c, \<lparr>allocation_pct = a * split_pct, funds = get_top_funds filtered\<rparr>)
                        # process_split fund_universe a rest)"

definition process_hybrid :: "fund list \<Rightarrow> real allocation \<Rightarrow> (string \<times> category_entry) list" where
  "process_hybrid fund_universe al =
     (if 0.2 < equity al \<and> 0.2 < debt al then
        (let category_funds = restrict_category fund_universe ''hybrid''
         in if category_funds \<noteq> [] then
              (let filtered = apply_category_filters category_funds ''hybrid''
               in if filtered \<noteq> [] then
                    [(''hybrid'',
                      \<lparr>allocation_pct = min 0.15 (min (equity al * 0.2) (debt al * 0.2)),
                       funds = get_top_funds filtered\<rparr>)]
                  else [])
            else [])
      else [])"

text \<open>
  \<open>filter_funds\<close> returns the category and the dict \<open>filtered_funds\<close>, here the list of its
  items in insertion order (the keys of the three blocks are distinct).
\<close>

definition filter_funds :: "fund list \<Rightarrow> real \<Rightarrow> string \<times> (string \<times> category_entry) list" where
  "filter_funds fund_universe risk_score =
     (let (risk_category, al) = get_risk_category_from_score risk_score;
          eq = (if 0 < equity al then process_split fund_universe (equity al) equity_split else []);
          db = (if 0 < debt al then process_split fund_universe (debt al) debt_split else []);
          hy = process_hybrid fund_universe al
      in (risk_category, eq @ db @ hy))"

subsection \<open>create\_portfolio\_recommendations\<close>

text \<open>
  A record of \<open>top_funds\<close>: the six columns that \<open>to_dict('records')\<close> is given of a row.
\<close>

record fund_record =
  record_fund_name :: string
  record_category :: string
  record_return_3yr :: real
  record_expense_ratio :: real
  record_sharpe_ratio :: real
  record_score :: real

definition to_record :: "scored_fund \<Rightarrow> fund_record" where
  "to_record r =
     \<lparr>record_fund_name = fund_name r, record_category = category r,
      record_return_3yr = return_3yr r, record_expense_ratio = expense_ratio r,
      record_sharpe_ratio = sharpe_ratio r, record_score = score r\<rparr>"

record recommendation =
  allocation_percentage :: real
  fund_count :: nat
  top_funds :: "fund_record list"

text \<open>
  The returned dict. Its keys \<open>risk_category\<close> and \<open>risk_score\<close> are the fields
  \<open>portfolio_risk_category\<close> and \<open>portfolio_risk_score\<close>.
\<close>

record portfolio =
  portfolio_risk_category :: string
  portfolio_risk_score :: real
  total_categories :: nat
  recommendations :: "(string \<times> recommendation) list"
  total_allocation :: real

text \<open>The running sum \<open>total_allocation += allocation_pct\<close> over the items, from 0.\<close>

definition sum_allocation :: "(string \<times> category_entry) list \<Rightarrow> real" where
  "sum_allocation items = foldl (\<lambda>t (c, d). t + allocation_pct d) 0 items"

definition create_portfolio_recommendations :: "fund list \<Rightarrow> real \<Rightarrow> portfolio" where
  "create_portfolio_recommendations fund_universe rs =
     (let (rc, filtered_funds) = filter_funds fund_universe rs
      in \<lparr>portfolio_risk_category = rc,
          portfolio_risk_score = rs,
          total_categories = length filtered_funds,
          recommendations =
            map (\<lambda>(c, d). (c, \<lparr>allocation_percentage = py_round (allocation_pct d * 100) 1,
                                fund_count = length (funds d),
                                top_funds =
                                  (if funds d \<noteq> [] then map to_record (funds d) else [])\<rparr>))
                filtered_funds,
          total_allocation = py_round (sum_allocation filtered_funds * 100) 1\<rparr>)"

section \<open>Python values and exceptions\<close>

text \<open>
  The profiles are dicts of untyped values. The values that matter here are \<open>None\<close>,
  numbers, strings and dicts (lists of items, the first item of a key being the one a lookup
  finds). An exception is the left summand of a result.
\<close>

datatype py_error = TypeError | ValueError | KeyError | ZeroDivisionError | AttributeError

datatype pyval = PNone | PNum real | PStr string | PDict "(pyval \<times> pyval) list"

text \<open>Sequencing: the first exception ends the computation.\<close>

definition then_do :: "py_error + 'a \<Rightarrow> ('a \<Rightarrow> py_error + 'b) \<Rightarrow> py_error + 'b" where
  "then_do m f = (case m of Inl e \<Rightarrow> Inl e | Inr x \<Rightarrow> f x)"

text \<open>
  The conversions \<open>int(s)\<close> and \<open>float(s)\<close> of a string are the interpreter's; they are
  parameters of the model, \<open>None\<close> where Python raises \<open>ValueError\<close>.
\<close>

record py_builtins =
  int_of_str :: "string \<Rightarrow> int option"
  float_of_str :: "string \<Rightarrow> real option"

text \<open>An arithmetic operation or an ordering comparison of a value with a number.\<close>

definition as_num :: "pyval \<Rightarrow> py_error + real" where
  "as_num v = (case v of PNum x \<Rightarrow> Inr x | _ \<Rightarrow> Inl TypeError)"

definition truthy :: "pyval \<Rightarrow> bool" where
  "truthy v =
     (case v of PNone \<Rightarrow> False | PNum x \<Rightarrow> x \<noteq> 0 | PStr s \<Rightarrow> s \<noteq> [] | PDict d \<Rightarrow> d \<noteq> [])"

text \<open>\<open>d.get(k, default)\<close> on a dict with string keys.\<close>

definition dict_get :: "(string \<times> pyval) list \<Rightarrow> string \<Rightarrow> pyval \<Rightarrow> pyval" where
  "dict_get d k dflt = (case map_of d k of Some v \<Rightarrow> v | None \<Rightarrow> dflt)"

text \<open>\<open>w[k]\<close>: a missing key raises \<open>KeyError\<close>, a value that is no dict \<open>TypeError\<close>.\<close>

definition subscript :: "pyval \<Rightarrow> pyval \<Rightarrow> py_error + pyval" where
  "subscript w k =
     (case w of
        PDict d \<Rightarrow> (case map_of d k of Some v \<Rightarrow> Inr v | None \<Rightarrow> Inl KeyError)
      | _ \<Rightarrow> Inl TypeError)"

definition log1p :: "real \<Rightarrow> py_error + real" where
  "log1p x = (if x \<le> - 1 then Inl ValueError else Inr (ln (1 + x)))"

definition py_div :: "real \<Rightarrow> real \<Rightarrow> py_error + real" where
  "py_div a b = (if b = 0 then Inl ZeroDivisionError else Inr (a / b))"

text \<open>\<open>int(v)\<close> truncates a number towards zero; \<open>float(v)\<close> keeps it.\<close>

definition py_int :: "py_builtins \<Rightarrow> pyval \<Rightarrow> py_error + int" where
  "py_int B v =
     (case v of
        PNum x \<Rightarrow> Inr (if 0 \<le> x then \<lfloor>x\<rfloor> else \<lceil>x\<rceil>)
      | PStr s \<Rightarrow> (case int_of_str B s of Some i \<Rightarrow> Inr i | None \<Rightarrow> Inl ValueError)
      | _ \<Rightarrow> Inl TypeError)"

definition py_float :: "py_builtins \<Rightarrow> pyval \<Rightarrow> py_error + real" where
  "py_float B v =
     (case v of
        PNum x \<Rightarrow> Inr x
      | PStr s \<Rightarrow> (case float_of_str B s of Some x \<Rightarrow> Inr x | None \<Rightarrow> Inl ValueError)
      | _ \<Rightarrow> Inl TypeError)"

text \<open>
  The term \<open>w[name] * factor\<close> of a weighted sum. A weight that is no number raises
  \<open>TypeError\<close>, in the product or in the sum that takes the product.
\<close>

definition weighted_term :: "pyval \<Rightarrow> string \<Rightarrow> real \<Rightarrow> py_error + real" where
  "weighted_term w name factor =
     then_do (subscript w (PStr name)) (\<lambda>v. then_do (as_num v) (\<lambda>x. Inr (x * factor)))"

text \<open>
  The timeline factor, the same code in both modules. \<open>avg\<close> is \<open>np.mean\<close> of
  \<open>months / 12\<close> over the keys of the goals.
\<close>

fun months_to_years :: "pyval list \<Rightarrow> py_error + real list" where
  "months_to_years [] = Inr []"
| "months_to_years (k # ks) =
     then_do (as_num k) (\<lambda>m. then_do (months_to_years ks) (\<lambda>ys. Inr (m / 12 # ys)))"

definition goal_keys :: "pyval \<Rightarrow> py_error + pyval list" where
  "goal_keys goals =
     (case goals of
        PDict d \<Rightarrow> Inr (map fst d)
      | PStr s \<Rightarrow> Inl AttributeError
      | _ \<Rightarrow> Inl TypeError)"

definition timeline_from_goals :: "pyval \<Rightarrow> py_error + real" where
  "timeline_from_goals goals =
     then_do (goal_keys goals) (\<lambda>ks.
     then_do (months_to_years ks) (\<lambda>ys.
     then_do (log1p (sum_list ys / real (length ys))) (\<lambda>a.
     then_do (log1p 30) (\<lambda>b.
     then_do (py_div a b) (\<lambda>timeline_factor.
     Inr (min (max timeline_factor 0) 1))))))"

section \<open>modules/risk\_assessment.py\<close>

text \<open>
  \<open>calculate_risk_score\<close>, section by section as the source numbers them. Its function
  \<open>get_risk_category_from_score\<close> is, line for line, the one of \<open>fund_filtering.py\<close>.
\<close>

definition default_weights :: pyval where
  "default_weights =
     PDict [(PStr ''age'', PNum 0.25), (PStr ''income'', PNum 0.20),
            (PStr ''timeline'', PNum 0.20), (PStr ''surplus'', PNum 0.15),
            (PStr ''savings'', PNum 0.10), (PStr ''tolerance'', PNum 0.10)]"

definition age_factor_of :: "pyval \<Rightarrow> py_error + real" where
  "age_factor_of age =
     then_do (as_num age) (\<lambda>a.
       Inr (if a \<le> 25 then 1.0 else if a \<le> 35 then 0.8 else if a \<le> 45 then 0.6
            else if a \<le> 55 then 0.4 else 0.2))"

definition income_factor_of :: "real \<Rightarrow> real" where
  "income_factor_of income =
     (let capped_income = min income 100000;
          income_factor = capped_income / 100000
      in min (max income_factor 0) 1)"

definition surplus_factor_of :: "pyval \<Rightarrow> real \<Rightarrow> py_error + real" where
  "surplus_factor_of monthly_surplus income =
     then_do (as_num monthly_surplus) (\<lambda>ms.
     let surplus = max ms 0 in
     then_do (log1p surplus) (\<lambda>a.
     then_do (log1p (if 0 < income then income / 2 else 1)) (\<lambda>b.
     then_do (py_div a b) (\<lambda>surplus_factor.
     Inr (min (max surplus_factor 0) 1)))))"

definition savings_factor_of :: "pyval \<Rightarrow> real \<Rightarrow> py_error + real" where
  "savings_factor_of current_savings income =
     (let monthly_income = (if 0 < income then income / 12 else 1) in
      then_do (as_num current_savings) (\<lambda>cs.
      then_do (py_div cs monthly_income) (\<lambda>savings_months.
      then_do (log1p savings_months) (\<lambda>a.
      then_do (log1p 60) (\<lambda>b.
      then_do (py_div a b) (\<lambda>savings_factor.
      Inr (min (max savings_factor 0) 1)))))))"

definition timeline_factor_of :: "pyval \<Rightarrow> py_error + real" where
  "timeline_factor_of goals =
     (if truthy goals then
        (case goals of
           PNum x \<Rightarrow> Inl TypeError
         | _ \<Rightarrow> timeline_from_goals goals)
      else Inr 0.5)"

definition tolerance_factor_of :: "pyval \<Rightarrow> py_error + real" where
  "tolerance_factor_of risk_tolerance = then_do (as_num risk_tolerance) (\<lambda>t. Inr ((t - 1) / 4))"

definition calculate_risk_score ::
  "pyval \<Rightarrow> pyval \<Rightarrow> pyval \<Rightarrow> pyval \<Rightarrow> pyval \<Rightarrow> pyval \<Rightarrow> pyval \<Rightarrow> py_error + real" where
  "calculate_risk_score age income current_savings monthly_surplus goals risk_tolerance weights =
     (let w = (if truthy weights then weights else default_weights) in
      then_do (age_factor_of age) (\<lambda>age_factor.
      then_do (as_num income) (\<lambda>inc.
      let income_factor = income_factor_of inc in
      then_do (surplus_factor_of monthly_surplus inc) (\<lambda>surplus_factor.
      then_do (savings_factor_of current_savings inc) (\<lambda>savings_factor.
      then_do (timeline_factor_of goals) (\<lambda>timeline_factor.
      then_do (tolerance_factor_of risk_tolerance) (\<lambda>tolerance_factor.
      then_do (weighted_term w ''age'' age_factor) (\<lambda>t1.
      then_do (weighted_term w ''income'' income_factor) (\<lambda>t2.
      then_do (weighted_term w ''timeline'' timeline_factor) (\<lambda>t3.
      then_do (weighted_term w ''surplus'' surplus_factor) (\<lambda>t4.
      then_do (weighted_term w ''savings'' savings_factor) (\<lambda>t5.
      then_do (weighted_term w ''tolerance'' tolerance_factor) (\<lambda>t6.
      let risk_score = t1 + t2 + t3 + t4 + t5 + t6 in
      Inr (min (max risk_score 0) 1))))))))))))))"

record risk_analysis =
  analysis_risk_score :: real
  analysis_risk_category :: string
  debt_percentage :: real
  equity_percentage :: real
  analysis_allocation :: "real allocation"

definition analyze_user_risk_profile :: "(string \<times> pyval) list \<Rightarrow> py_error + risk_analysis" where
  "analyze_user_risk_profile user_data =
     (let age = dict_get user_data ''age'' PNone;
          income = dict_get user_data ''income'' PNone;
          current_savings = dict_get user_data ''current_savings'' PNone;
          monthly_surplus = dict_get user_data ''monthly_surplus'' PNone;
          goals = dict_get user_data ''goals'' (PDict []);
          risk_tolerance = dict_get user_data ''risk_tolerance'' (PNum 3);
          custom_weights = dict_get user_data ''weights'' PNone
      in then_do
           (calculate_risk_score age income current_savings monthly_surplus goals
              risk_tolerance custom_weights)
           (\<lambda>rs. let (cat, al) = get_risk_category_from_score rs
                 in Inr \<lparr>analysis_risk_score = py_round rs 3,
                         analysis_risk_category = cat,
                         debt_percentage = py_round (debt al * 100) 1,
                         equity_percentage = py_round (equity al * 100) 1,
                         analysis_allocation = al\<rparr>))"

section \<open>config/settings.py\<close>

record RiskAssessmentConfig =
  WEIGHTS :: "(string \<times> real) list"
  RISK_CATEGORIES :: "((real \<times> real) \<times> string) list"
  INCOME_CAP :: real

definition default_config :: RiskAssessmentConfig where
  "default_config =
     \<lparr>WEIGHTS =
        [(''age_factor'', 0.25), (''income_factor'', 0.20), (''timeline_factor'', 0.20),
         (''surplus_factor'', 0.15), (''savings_factor'', 0.10),
         (''risk_tolerance_factor'', 0.10)],
      RISK_CATEGORIES =
        [((0.0, 0.2), ''Very Conservative''), ((0.2, 0.4), ''Conservative''),
         ((0.4, 0.6), ''Moderate''), ((0.6, 0.8), ''Growth''), ((0.8, 1.0), ''Aggressive'')],
      INCOME_CAP = 100000\<rparr>"

definition ALLOCATIONS :: "(string \<times> int allocation) list" where
  "ALLOCATIONS =
     [(''Very Conservative'', \<lparr>debt = 85, equity = 15\<rparr>),
      (''Conservative'', \<lparr>debt = 70, equity = 30\<rparr>),
      (''Moderate'', \<lparr>debt = 55, equity = 45\<rparr>),
      (''Growth'', \<lparr>debt = 35, equity = 65\<rparr>),
      (''Aggressive'', \<lparr>debt = 20, equity = 80\<rparr>)]"

section \<open>modules/risk\_assessment\_complex.py\<close>

text \<open>
  The methods of \<open>RiskAssessmentEngine\<close>; the engine is its configuration (the allocation
  table is the constant \<open>ALLOCATIONS\<close>). Names lose their leading underscore; the
  constructor is \<open>engine_init\<close>, and the method \<open>calculate_risk_score\<close> is
  \<open>engine_calculate_risk_score\<close>, the plain name being that of the function of
  \<open>risk_assessment.py\<close>.
\<close>

subsection \<open>Construction\<close>

definition validate_config :: "RiskAssessmentConfig \<Rightarrow> py_error + unit" where
  "validate_config cfg =
     (let total_weight = sum_list (map snd (WEIGHTS cfg))
      in if 0.01 < \<bar>total_weight - 1.0\<bar> then Inl ValueError else Inr ())"

text \<open>\<open>RiskAssessmentEngine(config)\<close>: the engine, or the exception of the validation.\<close>

definition engine_init :: "RiskAssessmentConfig option \<Rightarrow> py_error + RiskAssessmentConfig" where
  "engine_init config =
     (let cfg = (case config of Some c \<Rightarrow> c | None \<Rightarrow> default_config)
      in then_do (validate_config cfg) (\<lambda>_. Inr cfg))"

subsection \<open>Validation of the fields\<close>

definition caught :: "py_error \<Rightarrow> bool" where
  "caught e = (e = ValueError \<or> e = TypeError)"

definition validate_age :: "py_builtins \<Rightarrow> pyval \<Rightarrow> py_error + int" where
  "validate_age B age =
     (case py_int B age of
        Inr a \<Rightarrow> Inr (if a < 18 \<or> 100 < a then 30 else a)
      | Inl e \<Rightarrow> if caught e then Inr 30 else Inl e)"

definition validate_income :: "py_builtins \<Rightarrow> pyval \<Rightarrow> py_error + real" where
  "validate_income B income =
     (case py_float B income of
        Inr i \<Rightarrow> Inr (if i < 0 then 0 else i)
      | Inl e \<Rightarrow> if caught e then Inr 50000 else Inl e)"

definition validate_risk_tolerance :: "py_builtins \<Rightarrow> pyval \<Rightarrow> py_error + int" where
  "validate_risk_tolerance B risk_tolerance =
     (case py_int B risk_tolerance of
        Inr tolerance \<Rightarrow> Inr (if tolerance < 1 \<or> 10 < tolerance then 5 else tolerance)
      | Inl e \<Rightarrow> if caught e then Inr 5 else Inl e)"

subsection \<open>The factors\<close>

definition calculate_age_factor :: "int \<Rightarrow> real" where
  "calculate_age_factor age =
     (if age \<le> 25 then 1.0 else if age \<le> 35 then 0.8 else if age \<le> 45 then 0.6
      else if age \<le> 55 then 0.4 else 0.2)"

definition calculate_income_factor :: "RiskAssessmentConfig \<Rightarrow> real \<Rightarrow> py_error + real" where
  "calculate_income_factor cfg income =
     (let capped_income = min income (INCOME_CAP cfg) in
      then_do (py_div capped_income (INCOME_CAP cfg)) (\<lambda>income_factor.
      Inr (min (max income_factor 0) 1)))"

definition calculate_timeline_factor :: "pyval \<Rightarrow> py_error + real" where
  "calculate_timeline_factor goals =
     (if \<not> truthy goals then Inr 0.5
      else (case goals of
              PNum x \<Rightarrow> Inl TypeError
            | _ \<Rightarrow> timeline_from_goals goals))"

definition calculate_surplus_factor :: "real \<Rightarrow> real \<Rightarrow> py_error + real" where
  "calculate_surplus_factor monthly_surplus income =
     (if income \<le> 0 then Inr 0.0
      else let surplus = max monthly_surplus 0;
               reference_income = (if 0 < income then income / 2 else 1)
           in then_do (log1p surplus) (\<lambda>a.
              then_do (log1p reference_income) (\<lambda>b.
              then_do (py_div a b) (\<lambda>surplus_factor.
              Inr (min (max surplus_factor 0) 1)))))"

definition calculate_savings_factor :: "real \<Rightarrow> real \<Rightarrow> py_error + real" where
  "calculate_savings_factor current_savings monthly_income =
     (if monthly_income \<le> 0 then Inr 0.0
      else then_do (py_div current_savings monthly_income) (\<lambda>savings_months.
           then_do (log1p savings_months) (\<lambda>a.
           then_do (log1p 60) (\<lambda>b.
           then_do (py_div a b) (\<lambda>savings_factor.
           Inr (min (max savings_factor 0) 1))))))"

definition calculate_tolerance_factor :: "int \<Rightarrow> real" where
  "calculate_tolerance_factor risk_tolerance = (of_int risk_tolerance - 1) / 9"

subsection \<open>The weighted score\<close>

definition factor_names :: "string list" where
  "factor_names =
     [''age_factor'', ''income_factor'', ''timeline_factor'', ''surplus_factor'',
      ''savings_factor'', ''risk_tolerance_factor'']"

text \<open>\<open>sum\<close> over the generator, from the start value: each term is taken in turn.\<close>

fun weighted_sum :: "pyval \<Rightarrow> real \<Rightarrow> (string \<times> real) list \<Rightarrow> py_error + real" where
  "weighted_sum w acc [] = Inr acc"
| "weighted_sum w acc ((name, factor) # rest) =
     then_do (weighted_term w name factor) (\<lambda>t. weighted_sum w (acc + t) rest)"

definition calculate_weighted_score :: "pyval \<Rightarrow> real list \<Rightarrow> py_error + real" where
  "calculate_weighted_score weights factors =
     then_do (weighted_sum weights 0 (zip factor_names factors)) (\<lambda>risk_score.
     Inr (min (max risk_score 0) 1))"

subsection \<open>The category\<close>

fun first_band :: "((real \<times> real) \<times> string) list \<Rightarrow> real \<Rightarrow> string option" where
  "first_band [] rs = None"
| "first_band (((min_score, max_score), cat) # rest) rs =
     (if min_score \<le> rs \<and> rs \<le> max_score then Some cat
      else first_band rest rs)"

definition allocation_of :: "string \<Rightarrow> py_error + int allocation" where
  "allocation_of cat = (case map_of ALLOCATIONS cat of Some a \<Rightarrow> Inr a | None \<Rightarrow> Inl KeyError)"

definition get_risk_category_and_allocation ::
  "RiskAssessmentConfig \<Rightarrow> real \<Rightarrow> py_error + string \<times> int allocation" where
  "get_risk_category_and_allocation cfg risk_score =
     (case first_band (RISK_CATEGORIES cfg) risk_score of
        Some cat \<Rightarrow> then_do (allocation_of cat) (\<lambda>a. Inr (cat, a))
      | None \<Rightarrow> then_do (allocation_of ''Moderate'') (\<lambda>a. Inr (''Moderate'', a)))"

subsection \<open>calculate\_risk\_score of the engine\<close>

record risk_result =
  result_risk_score :: real
  result_risk_category :: string
  debt_allocation :: int
  equity_allocation :: int
  factor_breakdown :: "(string \<times> real) list"
  weighted_contributions :: "(string \<times> real) list"
  error :: "string option"

definition get_default_conservative_profile :: risk_result where
  "get_default_conservative_profile =
     \<lparr>result_risk_score = 0.3,
      result_risk_category = ''Conservative'',
      debt_allocation = 70,
      equity_allocation = 30,
      factor_breakdown = [],
      weighted_contributions = [],
      error = Some ''Used default conservative profile due to calculation error''\<rparr>"

definition weights_dict :: "(string \<times> real) list \<Rightarrow> pyval" where
  "weights_dict ws = PDict (map (\<lambda>(k, v). (PStr k, PNum v)) ws)"

text \<open>\<open>max(v, 0)\<close> on a value of the profile.\<close>

definition max_with_zero :: "pyval \<Rightarrow> py_error + real" where
  "max_with_zero v = then_do (as_num v) (\<lambda>x. Inr (max x 0))"

text \<open>The body of the \<open>try\<close> statement.\<close>

definition risk_score_body ::
  "py_builtins \<Rightarrow> RiskAssessmentConfig \<Rightarrow> (string \<times> pyval) list \<Rightarrow> py_error + risk_result" where
  "risk_score_body B cfg user_profile =
     then_do (validate_age B (dict_get user_profile ''age'' (PNum 30))) (\<lambda>age.
     then_do (validate_income B (dict_get user_profile ''monthly_income'' (PNum 50000))) (\<lambda>income.
     then_do (max_with_zero (dict_get user_profile ''current_savings'' (PNum 0))) (\<lambda>current_savings.
     then_do (max_with_zero (dict_get user_profile ''monthly_surplus'' (PNum 0))) (\<lambda>monthly_surplus.
     let goals = dict_get user_profile ''goals'' (PDict []) in
     then_do (validate_risk_tolerance B (dict_get user_profile ''risk_tolerance_score'' (PNum 5)))
       (\<lambda>risk_tolerance.
     let weights = dict_get user_profile ''custom_weights'' (weights_dict (WEIGHTS cfg));
         age_factor = calculate_age_factor age in
     then_do (calculate_income_factor cfg income) (\<lambda>income_factor.
     then_do (calculate_timeline_factor goals) (\<lambda>timeline_factor.
     then_do (calculate_surplus_factor monthly_surplus income) (\<lambda>surplus_factor.
     then_do (calculate_savings_factor current_savings income) (\<lambda>savings_factor.
     let tolerance_factor = calculate_tolerance_factor risk_tolerance in
     then_do (calculate_weighted_score weights
                [age_factor, income_factor, timeline_factor, surplus_factor, savings_factor,
                 tolerance_factor]) (\<lambda>risk_score.
     then_do (get_risk_category_and_allocation cfg risk_score) (\<lambda>(risk_category, al).
     then_do (weighted_term weights ''age_factor'' age_factor) (\<lambda>c1.
     then_do (weighted_term weights ''income_factor'' income_factor) (\<lambda>c2.
     then_do (weighted_term weights ''timeline_factor'' timeline_factor) (\<lambda>c3.
     then_do (weighted_term weights ''surplus_factor'' surplus_factor) (\<lambda>c4.
     then_do (weighted_term weights ''savings_factor'' savings_factor) (\<lambda>c5.
     then_do (weighted_term weights ''risk_tolerance_factor'' tolerance_factor) (\<lambda>c6.
     Inr \<lparr>result_risk_score = py_round risk_score 3,
          result_risk_category = risk_category,
          debt_allocation = debt al,
          equity_allocation = equity al,
          factor_breakdown =
            [(''age_factor'', py_round age_factor 3),
             (''income_factor'', py_round income_factor 3),
             (''timeline_factor'', py_round timeline_factor 3),
             (''surplus_factor'', py_round surplus_factor 3),
             (''savings_factor'', py_round savings_factor 3),
             (''tolerance_factor'', py_round tolerance_factor 3)],
          weighted_contributions =
            [(''age_contribution'', py_round c1 3),
             (''income_contribution'', py_round c2 3),
             (''timeline_contribution'', py_round c3 3),
             (''surplus_contribution'', py_round c4 3),
             (''savings_contribution'', py_round c5 3),
             (''tolerance_contribution'', py_round c6 3)],
          error = None\<rparr>)))))))))))))))))"

text \<open>
  The method: the body under \<open>try\<close>, and \<open>except Exception\<close>, which takes every exception of
  the body to the default profile.
\<close>

definition engine_calculate_risk_score ::
  "py_builtins \<Rightarrow> RiskAssessmentConfig \<Rightarrow> (string \<times> pyval) list \<Rightarrow> risk_result" where
  "engine_calculate_risk_score B cfg user_profile =
     (case risk_score_body B cfg user_profile of
        Inr r \<Rightarrow> r
      | Inl e \<Rightarrow> get_default_conservative_profile)"

section \<open>Reference notions\<close>

text \<open>
  The median of a series in the usual sense: the middle value of the sorted series, or the
  mean of the two middle values when the series has an even number of entries.
\<close>

definition median :: "real list \<Rightarrow> real" where
  "median xs = (let s = sort xs; n = length xs in
      if odd n then s ! (n div 2) else (s ! (n div 2 - 1) + s ! (n div 2)) / 2)"

text \<open>
  The share of the portfolio that the allocator assigns to a sub-category: 50, 30 and 20
  percent of the equity share to large, mid and small caps, the whole debt share to debt,
  and \<open>min(0.15, equity * 0.2, debt * 0.2)\<close> to hybrid.
\<close>

definition nominal_share :: "real allocation \<Rightarrow> string \<Rightarrow> real" where
  "nominal_share al c =
     (if c = ''large_cap'' then equity al * 0.5
      else if c = ''mid_cap'' then equity al * 0.3
      else if c = ''small_cap'' then equity al * 0.2
      else if c = ''debt'' then debt al * 1.0
      else min 0.15 (min (equity al * 0.2) (debt al * 0.2)))"

text \<open>The weight \<open>w[name]\<close> as the number a product takes it for.\<close>

definition weight_of :: "pyval \<Rightarrow> string \<Rightarrow> py_error + real" where
  "weight_of w name = then_do (subscript w (PStr name)) as_num"

text \<open>
  Shorthands: the baseline allocation of a score, the items of \<open>filtered_funds\<close> for a universe
  and a score, and the funds of a category that pass its filters.
\<close>

abbreviation baseline :: "real \<Rightarrow> real allocation" where
  "baseline s \<equiv> snd (get_risk_category_from_score s)"

abbreviation selected :: "fund list \<Rightarrow> real \<Rightarrow> (string \<times> category_entry) list" where
  "selected U s \<equiv> snd (filter_funds U s)"

abbreviation survivors :: "fund list \<Rightarrow> string \<Rightarrow> fund list" where
  "survivors U c \<equiv> apply_category_filters (restrict_category U c) c"

section \<open>Example universes\<close>

text \<open>
  A universe with two funds in each of the five categories; the second of each pair is the
  one that passes the filters of its category.
\<close>

definition mk_fund :: "string \<Rightarrow> string \<Rightarrow> real \<Rightarrow> real \<Rightarrow> fund" where
  "mk_fund n c r s =
     \<lparr>fund_name = n, category = c, return_3yr = r, expense_ratio = 1, sharpe_ratio = s,
      alpha = 1, age_years = 5\<rparr>"

definition example_universe :: "fund list" where
  "example_universe =
     [mk_fund ''L1'' ''large_cap'' 10 1, mk_fund ''L2'' ''large_cap'' 20 2,
      mk_fund ''M1'' ''mid_cap'' 10 1, mk_fund ''M2'' ''mid_cap'' 20 2,
      mk_fund ''S1'' ''small_cap'' 10 1, mk_fund ''S2'' ''small_cap'' 20 2,
      mk_fund ''D1'' ''debt'' 10 1, mk_fund ''D2'' ''debt'' 20 2,
      mk_fund ''H1'' ''hybrid'' 10 1, mk_fund ''H2'' ''hybrid'' 20 2]"

definition no_small_cap_universe :: "fund list" where
  "no_small_cap_universe = filter (\<lambda>f. category f \<noteq> ''small_cap'') example_universe"

section \<open>Example configurations\<close>

text \<open>The default configuration with the age weight lowered to 0.20: the weights sum to 0.95.\<close>

definition low_weights_config :: RiskAssessmentConfig where
  "low_weights_config =
     default_config\<lparr>WEIGHTS :=
        [(''age_factor'', 0.20), (''income_factor'', 0.20), (''timeline_factor'', 0.20),
         (''surplus_factor'', 0.15), (''savings_factor'', 0.10),
         (''risk_tolerance_factor'', 0.10)]\<rparr>"

text \<open>The same with the age weight raised to 0.30: the weights sum to 1.05.\<close>

definition high_weights_config :: RiskAssessmentConfig where
  "high_weights_config =
     default_config\<lparr>WEIGHTS :=
        [(''age_factor'', 0.30), (''income_factor'', 0.20), (''timeline_factor'', 0.20),
         (''surplus_factor'', 0.15), (''savings_factor'', 0.10),
         (''risk_tolerance_factor'', 0.10)]\<rparr>"

text \<open>Custom weights for the engine that sum to 0.5, and custom weights that sum to 5.\<close>

definition half_weights :: pyval where
  "half_weights =
     PDict [(PStr ''age_factor'', PNum 0.125), (PStr ''income_factor'', PNum 0.1),
            (PStr ''timeline_factor'', PNum 0.1), (PStr ''surplus_factor'', PNum 0.075),
            (PStr ''savings_factor'', PNum 0.05), (PStr ''risk_tolerance_factor'', PNum 0.05)]"

definition fivefold_weights :: pyval where
  "fivefold_weights =
     PDict [(PStr ''age_factor'', PNum 1.25), (PStr ''income_factor'', PNum 1),
            (PStr ''timeline_factor'', PNum 1), (PStr ''surplus_factor'', PNum 0.75),
            (PStr ''savings_factor'', PNum 0.5), (PStr ''risk_tolerance_factor'', PNum 0.5)]"

text \<open>The same for \<open>calculate_risk_score\<close> of \<open>risk_assessment.py\<close>, whose keys are shorter.\<close>

definition fivefold_simple_weights :: pyval where
  "fivefold_simple_weights =
     PDict [(PStr ''age'', PNum 1.25), (PStr ''income'', PNum 1), (PStr ''timeline'', PNum 1),
            (PStr ''surplus'', PNum 0.75), (PStr ''savings'', PNum 0.5),
            (PStr ''tolerance'', PNum 0.5)]"

text \<open>The first profile of the module's own test: a young investor with two goals.\<close>

definition young_investor_goals :: pyval where
  "young_investor_goals = PDict [(PNum 60, PNum 500000), (PNum 120, PNum 1000000)]"

section \<open>Properties of fund selection\<close>

lemma quantile_pos:
  assumes "xs \<noteq> []" and "q * real (length xs - 1) = h"
  shows "quantile xs q = Some (sort xs ! nat \<lfloor>h\<rfloor> + (h - real (nat \<lfloor>h\<rfloor>)) * (sort xs ! nat \<lceil>h\<rceil> - sort xs ! nat \<lfloor>h\<rfloor>))"
  using assms by (simp add: quantile_def Let_def)

lemma quantile_half_median:
  assumes "xs \<noteq> []"
  shows "quantile xs (1/2) = Some (median xs)"
proof (cases "odd (length xs)")
  case True
  then obtain k where k: "length xs = 2 * k + 1" by (auto elim: oddE)
  have h: "(1/2) * real (length xs - 1) = real k" using k by simp
  have m: "median xs = sort xs ! k" using True k by (simp add: median_def Let_def)
  show ?thesis unfolding quantile_pos[OF assms h] m by simp
next
  case False
  then obtain k where k: "length xs = 2 * k" by (auto elim: evenE)
  with assms have kpos: "0 < k" by (cases k) auto
  have h: "(1/2) * real (length xs - 1) = real k - 1/2" using k kpos by (simp add: of_nat_diff)
  have fl: "\<lfloor>real k - 1/2\<rfloor> = int k - 1" by linarith
  have ce: "\<lceil>real k - 1/2\<rceil> = int k" by linarith
  have n1: "nat (int k - 1) = k - 1" by simp
  have r: "real (k - 1) = real k - 1" using kpos by (simp add: of_nat_diff)
  have m: "median xs = (sort xs ! (k - 1) + sort xs ! k) / 2" using False k by (simp add: median_def Let_def)
  show ?thesis unfolding quantile_pos[OF assms h] m fl ce n1 r by (simp add: field_simps)
qed

lemma get_expense_threshold_cases:
  "get_expense_threshold c =
     (if c = ''large_cap'' then 2.0 else if c = ''mid_cap'' then 2.25
      else if c = ''small_cap'' then 2.5 else if c = ''debt'' then 1.5
      else if c = ''hybrid'' then 2.0 else 2.0)"
  by (simp add: get_expense_threshold_def thresholds_def)

text \<open>
  Claim C7. A fund of the category-restricted subset survives \<open>apply_category_filters\<close> if
  and only if its 3-year return is strictly above the median 3-year return of that subset,
  its expense ratio is strictly below the threshold of the category (large cap 2.0, mid cap
  2.25, small cap 2.5, debt 1.5, hybrid 2.0, any other category 2.0), its age is strictly
  more than 3 years, and its Sharpe ratio is strictly above the 0.75 quantile of the
  Sharpe ratios of that subset. Median and quantile are those of the subset
  \<open>restrict_category U c\<close>, not of the universe \<open>U\<close>.
\<close>

theorem filter_survives_iff:
  "f \<in> set (apply_category_filters (restrict_category U c) c) \<longleftrightarrow>
     f \<in> set (restrict_category U c) \<and>
     median (map return_3yr (restrict_category U c)) < return_3yr f \<and>
     expense_ratio f <
       (if c = ''large_cap'' then 2.0 else if c = ''mid_cap'' then 2.25
        else if c = ''small_cap'' then 2.5 else if c = ''debt'' then 1.5
        else if c = ''hybrid'' then 2.0 else 2.0) \<and>
     3 < age_years f \<and>
     (\<exists>p. quantile (map sharpe_ratio (restrict_category U c)) 0.75 = Some p \<and> p < sharpe_ratio f)"
proof (cases "f \<in> set (restrict_category U c)")
  case False
  then show ?thesis by (simp add: apply_category_filters_def)
next
  case True
  then have ne: "map return_3yr (restrict_category U c) \<noteq> []" 
    and ne2: "map sharpe_ratio (restrict_category U c) \<noteq> []" by auto
  have q: "quantile (map return_3yr (restrict_category U c)) 0.5 = Some (median (map return_3yr (restrict_category U c)))"
    using quantile_half_median[OF ne] by simp
  have A: "gt_quantile (return_3yr f) (quantile (map return_3yr (restrict_category U c)) 0.5)
             \<longleftrightarrow> median (map return_3yr (restrict_category U c)) < return_3yr f"
    unfolding q by (simp add: gt_quantile_def)
  have B: "gt_quantile (sharpe_ratio f) (quantile (map sharpe_ratio (restrict_category U c)) 0.75)
             \<longleftrightarrow> (\<exists>p. quantile (map sharpe_ratio (restrict_category U c)) 0.75 = Some p \<and> p < sharpe_ratio f)"
    by (cases "quantile (map sharpe_ratio (restrict_category U c)) 0.75") (simp_all add: gt_quantile_def)
  have "f \<in> set (apply_category_filters (restrict_category U c) c) \<longleftrightarrow>
        f \<in> set (restrict_category U c) \<and>
        gt_quantile (return_3yr f) (quantile (map return_3yr (restrict_category U c)) 0.5) \<and>
        expense_ratio f < get_expense_threshold c \<and> 3 < age_years f \<and>
        gt_quantile (sharpe_ratio f) (quantile (map sharpe_ratio (restrict_category U c)) 0.75)"
    unfolding apply_category_filters_def by (simp only: set_filter mem_Collect_eq)
  then show ?thesis unfolding A B get_expense_threshold_cases .
qed


lemma apply_category_filters_Nil: "apply_category_filters [] c = []"
  by (simp add: apply_category_filters_def)

lemma survivors_Nil: "restrict_category U c = [] \<Longrightarrow> survivors U c = []"
  by (simp add: apply_category_filters_Nil)

text \<open>What the loop adds for a key.\<close>

lemma process_split_mem:
  "(k, e) \<in> set (process_split U a sp) \<Longrightarrow>
     survivors U k \<noteq> [] \<and> funds e = get_top_funds (survivors U k) \<and>
     (\<exists>p. (k, p) \<in> set sp \<and> allocation_pct e = a * p)"
proof (induction sp)
  case Nil
  then show ?case by simp
next
  case (Cons x sp)
  obtain c p where x: "x = (c, p)" by (cases x)
  show ?case using Cons unfolding x
    by (auto simp: Let_def apply_category_filters_Nil split: if_splits)
qed

lemma process_split_keys:
  "fst ` set (process_split U a sp) = {k \<in> fst ` set sp. survivors U k \<noteq> []}"
proof (induction sp)
  case Nil
  then show ?case by simp
next
  case (Cons x sp)
  obtain c p where x: "x = (c, p)" by (cases x)
  show ?case using Cons unfolding x
    by (auto simp: Let_def apply_category_filters_Nil split: if_splits)
qed

lemma process_split_cong:
  "(\<And>c. c \<in> fst ` set sp \<Longrightarrow> restrict_category U c = restrict_category U' c) \<Longrightarrow>
     process_split U a sp = process_split U' a sp"
proof (induction sp)
  case Nil
  then show ?case by simp
next
  case (Cons x sp)
  obtain c p where x: "x = (c, p)" by (cases x)
  have r: "restrict_category U c = restrict_category U' c" using Cons.prems x by simp
  have ih: "process_split U a sp = process_split U' a sp" using Cons by simp
  show ?case unfolding x process_split.simps r ih ..
qed

lemma baseline_positive: "0 < equity (baseline s) \<and> 0 < debt (baseline s)"
  by (simp add: get_risk_category_from_score_def)

lemma selected_eq:
  "selected U s = process_split U (equity (baseline s)) equity_split @
     process_split U (debt (baseline s)) debt_split @ process_hybrid U (baseline s)"
  using baseline_positive[of s]
  by (simp add: filter_funds_def Let_def split_beta)

lemma process_hybrid_cases:
  "process_hybrid U al =
     (if 0.2 < equity al \<and> 0.2 < debt al \<and> survivors U ''hybrid'' \<noteq> []
      then [(''hybrid'', \<lparr>allocation_pct = min 0.15 (min (equity al * 0.2) (debt al * 0.2)),
                          funds = get_top_funds (survivors U ''hybrid'')\<rparr>)]
      else [])"
  by (auto simp: process_hybrid_def Let_def apply_category_filters_Nil)

lemma split_keys:
  "fst ` set equity_split = {''large_cap'', ''mid_cap'', ''small_cap''}"
  "fst ` set debt_split = {''debt''}"
  by (simp_all add: equity_split_def debt_split_def)

lemma hybrid_not_split_key:
  "''hybrid'' \<notin> fst ` set (process_split U a equity_split)"
  "''hybrid'' \<notin> fst ` set (process_split U a debt_split)"
  by (simp_all add: process_split_keys split_keys)

lemma equity_split_mem:
  "(k, p) \<in> set equity_split \<longleftrightarrow>
     k = ''large_cap'' \<and> p = 0.5 \<or> k = ''mid_cap'' \<and> p = 0.3 \<or> k = ''small_cap'' \<and> p = 0.2"
  unfolding equity_split_def by auto

lemma debt_split_mem: "(k, p) \<in> set debt_split \<longleftrightarrow> k = ''debt'' \<and> p = 1.0"
  unfolding debt_split_def by auto

lemma nominal_share_simps:
  "nominal_share al ''large_cap'' = equity al * 0.5"
  "nominal_share al ''mid_cap'' = equity al * 0.3"
  "nominal_share al ''small_cap'' = equity al * 0.2"
  "nominal_share al ''debt'' = debt al"
  "nominal_share al ''hybrid'' = min 0.15 (min (equity al * 0.2) (debt al * 0.2))"
  by (simp_all add: nominal_share_def)

lemma selected_share:
  assumes "(k, e) \<in> set (selected U s)"
  shows "allocation_pct e = nominal_share (baseline s) k"
proof -
  from assms consider
      (eq) "(k, e) \<in> set (process_split U (equity (baseline s)) equity_split)"
    | (db) "(k, e) \<in> set (process_split U (debt (baseline s)) debt_split)"
    | (hy) "(k, e) \<in> set (process_hybrid U (baseline s))"
    unfolding selected_eq by auto
  then show ?thesis
  proof cases
    case eq
    from process_split_mem[OF eq] obtain p
      where p: "(k, p) \<in> set equity_split" and a: "allocation_pct e = equity (baseline s) * p"
      by blast
    from p have "k = ''large_cap'' \<and> p = 0.5 \<or> k = ''mid_cap'' \<and> p = 0.3 \<or> k = ''small_cap'' \<and> p = 0.2"
      by (simp only: equity_split_mem)
    then show ?thesis using a by (elim disjE conjE) (simp_all only: nominal_share_simps)
  next
    case db
    from process_split_mem[OF db] obtain p
      where p: "(k, p) \<in> set debt_split" and a: "allocation_pct e = debt (baseline s) * p"
      by blast
    from p have "k = ''debt''" "p = 1.0" by (simp_all only: debt_split_mem)
    then show ?thesis using a by (simp add: nominal_share_simps)
  next
    case hy
    then have "k = ''hybrid''"
      and "allocation_pct e = min 0.15 (min (equity (baseline s) * 0.2) (debt (baseline s) * 0.2))"
      by (auto simp: process_hybrid_cases split: if_splits)
    then show ?thesis by (simp only: nominal_share_simps)
  qed
qed

lemma selected_keys:
  "fst ` set (selected U s) =
     {k \<in> {''large_cap'', ''mid_cap'', ''small_cap'', ''debt''}. survivors U k \<noteq> []} \<union>
     (if 0.2 < equity (baseline s) \<and> 0.2 < debt (baseline s) \<and> survivors U ''hybrid'' \<noteq> []
      then {''hybrid''} else {})"
proof -
  have "fst ` set (selected U s) =
          {k \<in> {''large_cap'', ''mid_cap'', ''small_cap''}. survivors U k \<noteq> []} \<union>
          {k \<in> {''debt''}. survivors U k \<noteq> []} \<union>
          fst ` set (process_hybrid U (baseline s))"
    unfolding selected_eq by (simp add: image_Un process_split_keys split_keys Un_assoc)
  also have "fst ` set (process_hybrid U (baseline s)) =
      (if 0.2 < equity (baseline s) \<and> 0.2 < debt (baseline s) \<and> survivors U ''hybrid'' \<noteq> []
       then {''hybrid''} else {})"
    by (simp add: process_hybrid_cases)
  finally show ?thesis by auto
qed

lemma sum_allocation_sum_list:
  "sum_allocation xs = sum_list (map (\<lambda>(c, d). allocation_pct d) xs)"
proof -
  have "foldl (\<lambda>t (c, d). t + allocation_pct d) a xs =
          a + sum_list (map (\<lambda>(c, d). allocation_pct d) xs)" for a
    by (induction xs arbitrary: a) (auto simp: split_beta)
  from this[of 0] show ?thesis by (simp add: sum_allocation_def)
qed

lemma sum_allocation_append:
  "sum_allocation (xs @ ys) = sum_allocation xs + sum_allocation ys"
  by (simp add: sum_allocation_sum_list)

lemma selected_without_hybrid:
  "filter (\<lambda>(k, e). k \<noteq> ''hybrid'') (selected U s) =
     process_split U (equity (baseline s)) equity_split @
     process_split U (debt (baseline s)) debt_split"
proof -
  have a: "filter (\<lambda>(k, e). k \<noteq> ''hybrid'') xs = xs" if "''hybrid'' \<notin> fst ` set xs"
    for xs :: "(string \<times> category_entry) list"
    using that by (induction xs) auto
  have b: "filter (\<lambda>(k, e). k \<noteq> ''hybrid'') (process_hybrid U (baseline s)) = []"
    by (simp add: process_hybrid_cases)
  show ?thesis unfolding selected_eq
    by (simp add: a hybrid_not_split_key b)
qed

lemma restrict_category_drop:
  "c \<noteq> h \<Longrightarrow> restrict_category (filter (\<lambda>f. category f \<noteq> h) U) c = restrict_category U c"
  unfolding restrict_category_def filter_filter by (rule filter_cong) auto

lemma restrict_category_dropped:
  "restrict_category (filter (\<lambda>f. category f \<noteq> h) U) h = []"
  unfolding restrict_category_def filter_filter by (simp add: filter_empty_conv)

text \<open>
  Claim C5. A hybrid entry is in the recommendation exactly when the baseline equity share
  and the baseline debt share both exceed 0.2 and a hybrid fund survives the filters. Its
  allocation is \<open>min(0.15, equity * 0.2, debt * 0.2)\<close>. It is added on top: the other entries
  are those the same universe without its hybrid funds yields, and the total is their total
  plus the hybrid allocation. For the Moderate baseline (debt 0.55, equity 0.45) the hybrid
  allocation is 0.09.
\<close>

theorem hybrid_carve_out:
  "(''hybrid'' \<in> fst ` set (selected U s) \<longleftrightarrow>
      0.2 < equity (baseline s) \<and> 0.2 < debt (baseline s) \<and> survivors U ''hybrid'' \<noteq> []) \<and>
   (\<forall>e. (''hybrid'', e) \<in> set (selected U s) \<longrightarrow>
      allocation_pct e = min 0.15 (min (equity (baseline s) * 0.2) (debt (baseline s) * 0.2))) \<and>
   filter (\<lambda>(k, e). k \<noteq> ''hybrid'') (selected U s) =
     selected (filter (\<lambda>f. category f \<noteq> ''hybrid'') U) s \<and>
   sum_allocation (selected U s) =
     sum_allocation (selected (filter (\<lambda>f. category f \<noteq> ''hybrid'') U) s) +
     (if ''hybrid'' \<in> fst ` set (selected U s)
      then min 0.15 (min (equity (baseline s) * 0.2) (debt (baseline s) * 0.2)) else 0) \<and>
   (0.4 < s \<and> s \<le> 0.6 \<longrightarrow>
      baseline s = \<lparr>debt = 0.55, equity = 0.45\<rparr> \<and>
      (\<forall>e. (''hybrid'', e) \<in> set (selected U s) \<longrightarrow> allocation_pct e = 0.09))"
proof -
  let ?h = "min 0.15 (min (equity (baseline s) * 0.2) (debt (baseline s) * 0.2))"
  let ?U' = "filter (\<lambda>f. category f \<noteq> ''hybrid'') U"
  have keys: "''hybrid'' \<in> fst ` set (selected U s) \<longleftrightarrow>
      0.2 < equity (baseline s) \<and> 0.2 < debt (baseline s) \<and> survivors U ''hybrid'' \<noteq> []"
    unfolding selected_keys by simp
  have share: "allocation_pct e = ?h" if "(''hybrid'', e) \<in> set (selected U s)" for e
    using selected_share[OF that] by (simp only: nominal_share_simps)
  have eqs: "process_split ?U' a equity_split = process_split U a equity_split" for a
    by (rule process_split_cong) (auto simp: split_keys restrict_category_drop)
  have dbs: "process_split ?U' a debt_split = process_split U a debt_split" for a
    by (rule process_split_cong) (auto simp: split_keys restrict_category_drop)
  have hy': "process_hybrid ?U' (baseline s) = []"
    by (simp add: process_hybrid_cases restrict_category_dropped apply_category_filters_Nil)
  have sel': "selected ?U' s =
      process_split U (equity (baseline s)) equity_split @
      process_split U (debt (baseline s)) debt_split"
    unfolding selected_eq[of ?U'] eqs dbs hy' by simp
  have rest: "filter (\<lambda>(k, e). k \<noteq> ''hybrid'') (selected U s) = selected ?U' s"
    unfolding sel' by (rule selected_without_hybrid)
  have hsum: "sum_allocation (process_hybrid U (baseline s)) =
      (if ''hybrid'' \<in> fst ` set (selected U s) then ?h else 0)"
    unfolding keys by (simp add: process_hybrid_cases sum_allocation_def)
  have total: "sum_allocation (selected U s) = sum_allocation (selected ?U' s) +
      (if ''hybrid'' \<in> fst ` set (selected U s) then ?h else 0)"
    unfolding sel' hsum[symmetric] unfolding selected_eq[of U]
    by (simp add: sum_allocation_append)
  have moderate: "baseline s = \<lparr>debt = 0.55, equity = 0.45\<rparr> \<and>
      (\<forall>e. (''hybrid'', e) \<in> set (selected U s) \<longrightarrow> allocation_pct e = 0.09)"
    if "0.4 < s \<and> s \<le> 0.6"
  proof -
    have b: "baseline s = \<lparr>debt = 0.55, equity = 0.45\<rparr>"
      using that by (simp add: get_risk_category_from_score_def)
    have "?h = 0.09" unfolding b by simp
    with share b show ?thesis by simp
  qed
  show ?thesis using keys share rest total moderate by blast
qed

theorem hybrid_carve_out_witness:
  "(''hybrid'', \<lparr>allocation_pct = 0.09,
       funds = get_top_funds (survivors example_universe ''hybrid'')\<rparr>)
     \<in> set (selected example_universe 0.5) \<and>
   sum_allocation (selected example_universe 0.5) =
     sum_allocation (selected (filter (\<lambda>f. category f \<noteq> ''hybrid'') example_universe) 0.5) + 0.09"
proof -
  have m: "(''hybrid'', \<lparr>allocation_pct = 0.09,
       funds = get_top_funds (survivors example_universe ''hybrid'')\<rparr>)
     \<in> set (selected example_universe 0.5)"
    by code_simp
  then have k: "''hybrid'' \<in> fst ` set (selected example_universe 0.5)" by force
  have h: "min 0.15 (min (equity (baseline 0.5) * 0.2) (debt (baseline 0.5) * 0.2)) = 0.09"
    by (simp add: get_risk_category_from_score_def)
  from hybrid_carve_out[of example_universe "0.5"] k h m show ?thesis by simp
qed

lemma process_split_Cons:
  "process_split U a ((c, p) # rest) =
     (if survivors U c = [] then process_split U a rest
      else (c, \<lparr>allocation_pct = a * p, funds = get_top_funds (survivors U c)\<rparr>)
             # process_split U a rest)"
  by (simp add: Let_def apply_category_filters_Nil)

lemma process_split_survivors_cong:
  "(\<And>c. c \<in> fst ` set sp \<Longrightarrow> survivors U c = survivors U' c) \<Longrightarrow>
     process_split U a sp = process_split U' a sp"
proof (induction sp)
  case Nil
  then show ?case by simp
next
  case (Cons x sp)
  obtain c p where x: "x = (c, p)" by (cases x)
  have r: "survivors U c = survivors U' c" using Cons.prems x by simp
  have ih: "process_split U a sp = process_split U' a sp" using Cons by simp
  show ?case unfolding x process_split_Cons r ih ..
qed

lemma selected_survivors_cong:
  assumes "\<And>c. survivors U c = survivors U' c"
  shows "selected U s = selected U' s"
proof -
  have "process_split U a sp = process_split U' a sp" for a sp
    by (rule process_split_survivors_cong) (rule assms)
  moreover have "process_hybrid U al = process_hybrid U' al" for al
    unfolding process_hybrid_cases assms ..
  ultimately show ?thesis unfolding selected_eq by simp
qed

lemma recommendations_keys:
  "map fst (recommendations (create_portfolio_recommendations U s)) = map fst (selected U s)"
  by (simp add: create_portfolio_recommendations_def split_beta comp_def)

text \<open>
  Claim C6. A sub-category among large cap, mid cap, small cap and debt with no record in
  the universe, or whose records the filters all eliminate, is absent from the
  recommendation. The recommendation is the one of the universe without the records of that
  category, so the category contributes neither funds nor allocation; and every entry that
  is present has its own nominal share, so the share of the absent category goes to no
  other entry.
\<close>

theorem empty_subcategory_omitted:
  assumes "c \<in> {''large_cap'', ''mid_cap'', ''small_cap'', ''debt''}"
    and "restrict_category U c = [] \<or> survivors U c = []"
  shows "c \<notin> fst ` set (selected U s) \<and>
         c \<notin> set (map fst (recommendations (create_portfolio_recommendations U s))) \<and>
         selected U s = selected (filter (\<lambda>f. category f \<noteq> c) U) s \<and>
         (\<forall>(k, e) \<in> set (selected U s). allocation_pct e = nominal_share (baseline s) k) \<and>
         total_allocation (create_portfolio_recommendations U s) =
           py_round (sum_list (map (\<lambda>(k, e). nominal_share (baseline s) k) (selected U s)) * 100) 1"
proof -
  from assms(2) have empty: "survivors U c = []" by (auto simp: apply_category_filters_Nil)
  from assms(1) have nh: "c \<noteq> ''hybrid''" by auto
  have absent: "c \<notin> fst ` set (selected U s)"
    unfolding selected_keys using empty nh by auto
  then have absent': "c \<notin> set (map fst (recommendations (create_portfolio_recommendations U s)))"
    unfolding recommendations_keys by simp
  have same: "selected U s = selected (filter (\<lambda>f. category f \<noteq> c) U) s"
  proof (rule selected_survivors_cong)
    fix k
    show "survivors U k = survivors (filter (\<lambda>f. category f \<noteq> c) U) k"
    proof (cases "k = c")
      case True
      then show ?thesis by (simp add: empty restrict_category_dropped apply_category_filters_Nil)
    next
      case False
      then show ?thesis by (simp add: restrict_category_drop)
    qed
  qed
  have shares: "\<forall>(k, e) \<in> set (selected U s). allocation_pct e = nominal_share (baseline s) k"
    using selected_share by auto
  have meq: "map (\<lambda>(k, e). allocation_pct e) (selected U s) =
        map (\<lambda>(k, e). nominal_share (baseline s) k) (selected U s)"
    by (rule map_cong) (use selected_share in auto)
  have "total_allocation (create_portfolio_recommendations U s) =
      py_round (sum_allocation (selected U s) * 100) 1"
    by (simp add: create_portfolio_recommendations_def split_beta)
  also have "sum_allocation (selected U s) =
      sum_list (map (\<lambda>(k, e). nominal_share (baseline s) k) (selected U s))"
    unfolding sum_allocation_sum_list meq ..
  finally have total: "total_allocation (create_portfolio_recommendations U s) =
      py_round (sum_list (map (\<lambda>(k, e). nominal_share (baseline s) k) (selected U s)) * 100) 1" .
  from absent absent' same shares total show ?thesis by blast
qed

theorem empty_subcategory_omitted_witness:
  "restrict_category no_small_cap_universe ''small_cap'' = [] \<and>
   ''small_cap'' \<notin> fst ` set (selected no_small_cap_universe 0.5) \<and>
   selected no_small_cap_universe 0.5 =
     selected (filter (\<lambda>f. category f \<noteq> ''small_cap'') no_small_cap_universe) 0.5 \<and>
   map (\<lambda>(k, e). (k, allocation_pct e)) (selected no_small_cap_universe 0.5) =
     [(''large_cap'', 0.225), (''mid_cap'', 0.135), (''debt'', 0.55), (''hybrid'', 0.09)] \<and>
   total_allocation (create_portfolio_recommendations no_small_cap_universe 0.5) = 100"
proof -
  have e: "restrict_category no_small_cap_universe ''small_cap'' = []"
    by code_simp
  have c: "''small_cap'' \<in> {''large_cap'', ''mid_cap'', ''small_cap'', ''debt''}" by simp
  have v: "map (\<lambda>(k, e). (k, allocation_pct e)) (selected no_small_cap_universe 0.5) =
     [(''large_cap'', 0.225), (''mid_cap'', 0.135), (''debt'', 0.55), (''hybrid'', 0.09)]"
    by code_simp
  have t: "total_allocation (create_portfolio_recommendations no_small_cap_universe 0.5) = 100"
    by code_simp
  from empty_subcategory_omitted[OF c disjI1[OF e], of "0.5"] e v t show ?thesis by blast
qed

lemma process_split_sum_le:
  assumes "0 \<le> a" and "\<forall>(c, p) \<in> set sp. 0 \<le> p"
  shows "sum_allocation (process_split U a sp) \<le> a * sum_list (map snd sp)"
  using assms(2)
proof (induction sp)
  case Nil
  then show ?case by (simp add: sum_allocation_sum_list)
next
  case (Cons x sp)
  obtain c p where x: "x = (c, p)" by (cases x)
  from Cons.prems x have p: "0 \<le> p" and rest: "\<forall>(c, p) \<in> set sp. 0 \<le> p" by auto
  have ih: "sum_allocation (process_split U a sp) \<le> a * sum_list (map snd sp)"
    using Cons.IH rest by blast
  have ap: "0 \<le> a * p" using assms(1) p by simp
  show ?case
  proof (cases "survivors U c = []")
    case True
    then show ?thesis unfolding x process_split_Cons using ih ap
      by (simp add: distrib_left)
  next
    case False
    then show ?thesis unfolding x process_split_Cons using ih
      by (simp add: sum_allocation_sum_list distrib_left)
  qed
qed

lemma baseline_cases:
  "baseline s = \<lparr>debt = 0.85, equity = 0.15\<rparr> \<or> baseline s = \<lparr>debt = 0.70, equity = 0.30\<rparr> \<or>
   baseline s = \<lparr>debt = 0.55, equity = 0.45\<rparr> \<or> baseline s = \<lparr>debt = 0.35, equity = 0.65\<rparr> \<or>
   baseline s = \<lparr>debt = 0.20, equity = 0.80\<rparr>"
  by (simp add: get_risk_category_from_score_def)

lemma hybrid_share_le:
  "sum_allocation (process_hybrid U (baseline s)) \<le> 0.09"
  using baseline_cases[of s]
  by (elim disjE) (simp_all add: process_hybrid_cases sum_allocation_sum_list)

text \<open>
  The bounds that do hold for every universe and every score: the allocations sum to at most
  109 percent, and to at most 100 percent when the recommendation has no hybrid entry.
\<close>

lemma sum_allocation_bounds:
  "sum_allocation (selected U s) \<le> 1.09"
  "''hybrid'' \<notin> fst ` set (selected U s) \<Longrightarrow> sum_allocation (selected U s) \<le> 1"
proof -
  have pos: "0 \<le> equity (baseline s)" "0 \<le> debt (baseline s)"
    using baseline_positive[of s] by simp_all
  have one: "equity (baseline s) + debt (baseline s) = 1"
    using baseline_cases[of s] by (elim disjE) simp_all
  have eq: "sum_allocation (process_split U (equity (baseline s)) equity_split)
      \<le> equity (baseline s) * sum_list (map snd equity_split)"
    by (rule process_split_sum_le[OF pos(1)]) (simp add: equity_split_def)
  have db: "sum_allocation (process_split U (debt (baseline s)) debt_split)
      \<le> debt (baseline s) * sum_list (map snd debt_split)"
    by (rule process_split_sum_le[OF pos(2)]) (simp add: debt_split_def)
  have eq1: "sum_list (map snd equity_split) = 1" by (simp add: equity_split_def)
  have db1: "sum_list (map snd debt_split) = 1" by (simp add: debt_split_def)
  have both: "sum_allocation (process_split U (equity (baseline s)) equity_split) +
      sum_allocation (process_split U (debt (baseline s)) debt_split) \<le> 1"
    using eq db one unfolding eq1 db1 by simp
  have split: "sum_allocation (selected U s) =
      sum_allocation (process_split U (equity (baseline s)) equity_split) +
      sum_allocation (process_split U (debt (baseline s)) debt_split) +
      sum_allocation (process_hybrid U (baseline s))"
    unfolding selected_eq by (simp add: sum_allocation_append)
  show "sum_allocation (selected U s) \<le> 1.09"
    unfolding split using both hybrid_share_le[of U s] by simp
  show "sum_allocation (selected U s) \<le> 1" if "''hybrid'' \<notin> fst ` set (selected U s)"
  proof -
    from that have "\<not> (0.2 < equity (baseline s) \<and> 0.2 < debt (baseline s) \<and>
        survivors U ''hybrid'' \<noteq> [])"
      unfolding selected_keys by (auto split: if_splits)
    then have "process_hybrid U (baseline s) = []"
      unfolding process_hybrid_cases by simp
    then show ?thesis unfolding split using both by (simp add: sum_allocation_sum_list)
  qed
qed

text \<open>
  Claim C1, at a universe in which every category has a fund that passes its filters and a
  risk score of 0.5 (Moderate): the allocations of the recommendation are 22.5, 13.5, 9, 55
  and 9 percent, and their total is 109 percent.
\<close>

theorem total_allocation_exceeds_100:
  "map (\<lambda>(k, r). (k, allocation_percentage r))
       (recommendations (create_portfolio_recommendations example_universe 0.5)) =
     [(''large_cap'', 22.5), (''mid_cap'', 13.5), (''small_cap'', 9), (''debt'', 55),
      (''hybrid'', 9)] \<and>
   sum_allocation (selected example_universe 0.5) = 1.09 \<and>
   total_allocation (create_portfolio_recommendations example_universe 0.5) = 109"
  by code_simp

section \<open>Properties of risk scoring\<close>

lemma then_do_simps [simp]:
  "then_do (Inl e) f = Inl e"
  "then_do (Inr x) f = f x"
  by (simp_all add: then_do_def)

lemma then_do_Inr_iff: "then_do m f = Inr r \<longleftrightarrow> (\<exists>x. m = Inr x \<and> f x = Inr r)"
  by (cases m) simp_all

lemma engine_category_default:
  "get_risk_category_and_allocation default_config s =
     Inr (if 0 \<le> s \<and> s \<le> 0.2 then (''Very Conservative'', \<lparr>debt = 85, equity = 15\<rparr>)
          else if 0.2 < s \<and> s \<le> 0.4 then (''Conservative'', \<lparr>debt = 70, equity = 30\<rparr>)
          else if 0.4 < s \<and> s \<le> 0.6 then (''Moderate'', \<lparr>debt = 55, equity = 45\<rparr>)
          else if 0.6 < s \<and> s \<le> 0.8 then (''Growth'', \<lparr>debt = 35, equity = 65\<rparr>)
          else if 0.8 < s \<and> s \<le> 1.0 then (''Aggressive'', \<lparr>debt = 20, equity = 80\<rparr>)
          else (''Moderate'', \<lparr>debt = 55, equity = 45\<rparr>))"
  by (simp add: get_risk_category_and_allocation_def default_config_def allocation_of_def
      ALLOCATIONS_def)

text \<open>
  Claim C4, as stated, at the score 1.5, which lies in none of the five bands: the function
  \<open>get_risk_category_from_score\<close> answers Aggressive, not Moderate.
\<close>

theorem category_fallback_counterexample:
  "get_risk_category_from_score 1.5 = (''Aggressive'', \<lparr>debt = 0.20, equity = 0.80\<rparr>) \<and>
   fst (get_risk_category_from_score 1.5) \<noteq> ''Moderate''"
  by (simp add: get_risk_category_from_score_def)

text \<open>
  Claim C4, amended. The mapper of the engine sends the scores of \<open>[0, 0.2]\<close> to Very
  Conservative (85/15), of \<open>(0.2, 0.4]\<close> to Conservative (70/30), of \<open>(0.4, 0.6]\<close> to
  Moderate (55/45), of \<open>(0.6, 0.8]\<close> to Growth (35/65), of \<open>(0.8, 1]\<close> to Aggressive
  (20/80), the first matching band winning, and every other score to Moderate. The function
  \<open>get_risk_category_from_score\<close> agrees with it on \<open>[0, 1]\<close> (its allocations are
  fractions of 1), and has no fallback: a score below 0 is Very Conservative and a score
  above 1 is Aggressive.
\<close>

theorem category_mapping:
  "get_risk_category_and_allocation default_config s =
     Inr (if 0 \<le> s \<and> s \<le> 0.2 then (''Very Conservative'', \<lparr>debt = 85, equity = 15\<rparr>)
          else if 0.2 < s \<and> s \<le> 0.4 then (''Conservative'', \<lparr>debt = 70, equity = 30\<rparr>)
          else if 0.4 < s \<and> s \<le> 0.6 then (''Moderate'', \<lparr>debt = 55, equity = 45\<rparr>)
          else if 0.6 < s \<and> s \<le> 0.8 then (''Growth'', \<lparr>debt = 35, equity = 65\<rparr>)
          else if 0.8 < s \<and> s \<le> 1.0 then (''Aggressive'', \<lparr>debt = 20, equity = 80\<rparr>)
          else (''Moderate'', \<lparr>debt = 55, equity = 45\<rparr>)) \<and>
   (0 \<le> s \<and> s \<le> 1 \<longrightarrow>
      (\<exists>c a. get_risk_category_and_allocation default_config s = Inr (c, a) \<and>
             fst (get_risk_category_from_score s) = c \<and>
             debt (snd (get_risk_category_from_score s)) * 100 = of_int (debt a) \<and>
             equity (snd (get_risk_category_from_score s)) * 100 = of_int (equity a))) \<and>
   (s < 0 \<longrightarrow>
      get_risk_category_from_score s = (''Very Conservative'', \<lparr>debt = 0.85, equity = 0.15\<rparr>)) \<and>
   (1 < s \<longrightarrow>
      get_risk_category_from_score s = (''Aggressive'', \<lparr>debt = 0.20, equity = 0.80\<rparr>))"
proof -
  have agree: "\<exists>c a. get_risk_category_and_allocation default_config s = Inr (c, a) \<and>
             fst (get_risk_category_from_score s) = c \<and>
             debt (snd (get_risk_category_from_score s)) * 100 = of_int (debt a) \<and>
             equity (snd (get_risk_category_from_score s)) * 100 = of_int (equity a)"
    if "0 \<le> s \<and> s \<le> 1"
    unfolding engine_category_default using that
    by (simp add: get_risk_category_from_score_def)
  have low: "get_risk_category_from_score s = (''Very Conservative'', \<lparr>debt = 0.85, equity = 0.15\<rparr>)"
    if "s < 0" using that by (simp add: get_risk_category_from_score_def)
  have high: "get_risk_category_from_score s = (''Aggressive'', \<lparr>debt = 0.20, equity = 0.80\<rparr>)"
    if "1 < s" using that by (simp add: get_risk_category_from_score_def)
  from engine_category_default agree low high show ?thesis by blast
qed

theorem category_mapping_witness:
  "get_risk_category_and_allocation default_config 0 =
     Inr (''Very Conservative'', \<lparr>debt = 85, equity = 15\<rparr>) \<and>
   get_risk_category_and_allocation default_config 1.5 =
     Inr (''Moderate'', \<lparr>debt = 55, equity = 45\<rparr>) \<and>
   fst (get_risk_category_from_score 0) = ''Very Conservative'' \<and>
   get_risk_category_from_score (- 1) = (''Very Conservative'', \<lparr>debt = 0.85, equity = 0.15\<rparr>) \<and>
   get_risk_category_from_score 2 = (''Aggressive'', \<lparr>debt = 0.20, equity = 0.80\<rparr>)"
  using category_mapping[of 0] category_mapping[of "1.5"] category_mapping[of "- 1"]
    category_mapping[of 2]
  by (simp add: get_risk_category_from_score_def)




lemma then_do_InrE:
  assumes "then_do m f = Inr r"
  obtains x where "m = Inr x" and "f x = Inr r"
  using assms by (cases m) simp_all

lemma risk_score_body_error:
  "risk_score_body B cfg p = Inr r \<Longrightarrow> error r = None"
  unfolding risk_score_body_def Let_def
  apply (elim then_do_InrE)
  apply (simp add: split_beta)
  apply (elim then_do_InrE)
  apply auto
  done

lemma validate_simps:
  "validate_age B (PNum 30) = Inr 30"
  "validate_income B (PNum 50000) = Inr 50000"
  "validate_risk_tolerance B (PNum 5) = Inr 5"
  "max_with_zero (PNum 0) = Inr 0"
  by (simp_all add: validate_age_def validate_income_def validate_risk_tolerance_def py_int_def
      py_float_def max_with_zero_def as_num_def)

lemma default_factor_simps:
  "calculate_age_factor 30 = 0.8"
  "INCOME_CAP cfg = 100000 \<Longrightarrow> calculate_income_factor cfg 50000 = Inr 0.5"
  "calculate_timeline_factor (PDict []) = Inr 0.5"
  "calculate_surplus_factor 0 50000 = Inr 0"
  "calculate_savings_factor 0 50000 = Inr 0"
  "calculate_tolerance_factor 5 = 4 / 9"
  by (simp_all add: calculate_age_factor_def calculate_income_factor_def
      calculate_timeline_factor_def truthy_def calculate_surplus_factor_def
      calculate_savings_factor_def log1p_def py_div_def calculate_tolerance_factor_def)

lemma weighted_term_weight_of:
  "weighted_term w name f = then_do (weight_of w name) (\<lambda>x. Inr (x * f))"
  by (cases "subscript w (PStr name)") (simp_all add: weighted_term_def weight_of_def then_do_def split: sum.splits)

lemma calculate_weighted_score_eval:
  assumes "weight_of w ''age_factor'' = Inr w1" "weight_of w ''income_factor'' = Inr w2"
    "weight_of w ''timeline_factor'' = Inr w3" "weight_of w ''surplus_factor'' = Inr w4"
    "weight_of w ''savings_factor'' = Inr w5" "weight_of w ''risk_tolerance_factor'' = Inr w6"
  shows "calculate_weighted_score w [f1, f2, f3, f4, f5, f6] =
           Inr (min (max (w1 * f1 + w2 * f2 + w3 * f3 + w4 * f4 + w5 * f5 + w6 * f6) 0) 1)"
  using assms
  by (simp add: calculate_weighted_score_def factor_names_def weighted_term_weight_of add.assoc)

lemma weight_of_weights_dict:
  "weight_of (weights_dict ws) name = (case map_of ws name of Some x \<Rightarrow> Inr x | None \<Rightarrow> Inl KeyError)"
proof -
  have "map_of (map (\<lambda>(k, v). (PStr k, PNum v)) ws) (PStr name) = map_option PNum (map_of ws name)"
    by (induction ws) auto
  then show ?thesis
    by (simp add: weight_of_def weights_dict_def subscript_def as_num_def split: option.splits)
qed

lemma low_weights_lookup:
  "weight_of (weights_dict (WEIGHTS low_weights_config)) ''age_factor'' = Inr 0.20"
  "weight_of (weights_dict (WEIGHTS low_weights_config)) ''income_factor'' = Inr 0.20"
  "weight_of (weights_dict (WEIGHTS low_weights_config)) ''timeline_factor'' = Inr 0.20"
  "weight_of (weights_dict (WEIGHTS low_weights_config)) ''surplus_factor'' = Inr 0.15"
  "weight_of (weights_dict (WEIGHTS low_weights_config)) ''savings_factor'' = Inr 0.10"
  "weight_of (weights_dict (WEIGHTS low_weights_config)) ''risk_tolerance_factor'' = Inr 0.10"
  by (simp_all add: weight_of_weights_dict low_weights_config_def)

lemma first_band_total:
  "RISK_CATEGORIES cfg = RISK_CATEGORIES default_config \<Longrightarrow>
     \<exists>c a. get_risk_category_and_allocation cfg s = Inr (c, a)"
  by (simp add: get_risk_category_and_allocation_def default_config_def allocation_of_def
      ALLOCATIONS_def)

lemma empty_profile_body:
  "\<exists>r. risk_score_body B low_weights_config [] = Inr r"
proof -
  have cap: "INCOME_CAP low_weights_config = 100000"
    by (simp add: low_weights_config_def default_config_def)
  have bands: "RISK_CATEGORIES low_weights_config = RISK_CATEGORIES default_config"
    by (simp add: low_weights_config_def)
  show ?thesis
    unfolding risk_score_body_def Let_def
    apply (simp add: dict_get_def validate_simps default_factor_simps(1,3-6)
        default_factor_simps(2)[OF cap]
        calculate_weighted_score_eval[OF low_weights_lookup]
        weighted_term_weight_of low_weights_lookup)
    using first_band_total[OF bands, of "91 / 225"] by auto
qed

text \<open>
  Claim C9. Constructing the engine validates the weights of its configuration: a sum that
  differs from 1.0 by more than 0.01 (0.95 and 1.05 for example) raises the configuration
  error, and a sum within 0.01 of 1.0, so any sum from 0.999 to 1.001, is accepted. The
  check belongs to the construction only: scoring a profile with a configuration whose
  weights sum to 0.95 raises nothing and returns a result without error flag.
\<close>

theorem weights_validated_at_construction:
  "(0.01 < \<bar>sum_list (map snd (WEIGHTS cfg)) - 1\<bar> \<longrightarrow> engine_init (Some cfg) = Inl ValueError) \<and>
   (\<bar>sum_list (map snd (WEIGHTS cfg)) - 1\<bar> \<le> 0.01 \<longrightarrow> engine_init (Some cfg) = Inr cfg) \<and>
   (0.999 \<le> sum_list (map snd (WEIGHTS cfg)) \<and> sum_list (map snd (WEIGHTS cfg)) \<le> 1.001 \<longrightarrow>
      engine_init (Some cfg) = Inr cfg) \<and>
   sum_list (map snd (WEIGHTS low_weights_config)) = 0.95 \<and>
   engine_init (Some low_weights_config) = Inl ValueError \<and>
   sum_list (map snd (WEIGHTS high_weights_config)) = 1.05 \<and>
   engine_init (Some high_weights_config) = Inl ValueError \<and>
   engine_init None = Inr default_config \<and>
   error (engine_calculate_risk_score B low_weights_config []) = None"
proof -
  have bad: "engine_init (Some cfg) = Inl ValueError"
    if "0.01 < \<bar>sum_list (map snd (WEIGHTS cfg)) - 1\<bar>"
    using that by (simp add: engine_init_def validate_config_def)
  have good: "engine_init (Some cfg) = Inr cfg"
    if "\<bar>sum_list (map snd (WEIGHTS cfg)) - 1\<bar> \<le> 0.01"
    using that by (simp add: engine_init_def validate_config_def)
  have near: "engine_init (Some cfg) = Inr cfg"
    if "0.999 \<le> sum_list (map snd (WEIGHTS cfg)) \<and> sum_list (map snd (WEIGHTS cfg)) \<le> 1.001"
  proof (rule good, rule abs_leI)
    show "sum_list (map snd (WEIGHTS cfg)) - 1 \<le> 0.01" using that by simp
    show "- (sum_list (map snd (WEIGHTS cfg)) - 1) \<le> 0.01" using that by simp
  qed
  have low: "sum_list (map snd (WEIGHTS low_weights_config)) = 0.95"
    by (simp add: low_weights_config_def)
  have high: "sum_list (map snd (WEIGHTS high_weights_config)) = 1.05"
    by (simp add: high_weights_config_def)
  have low': "engine_init (Some low_weights_config) = Inl ValueError"
    by (simp add: engine_init_def validate_config_def low)
  have high': "engine_init (Some high_weights_config) = Inl ValueError"
    by (simp add: engine_init_def validate_config_def high)
  have dflt: "engine_init None = Inr default_config"
    by (simp add: engine_init_def validate_config_def default_config_def)
  obtain r where r: "risk_score_body B low_weights_config [] = Inr r"
    using empty_profile_body by blast
  have run: "error (engine_calculate_risk_score B low_weights_config []) = None"
    using risk_score_body_error[OF r] by (simp add: engine_calculate_risk_score_def r)
  from bad good near low high low' high' dflt run show ?thesis by blast
qed

theorem weights_validated_at_construction_witness:
  "engine_init (Some low_weights_config) = Inl ValueError \<and>
   engine_init (Some high_weights_config) = Inl ValueError \<and>
   engine_init (Some default_config) = Inr default_config"
proof -
  have s: "sum_list (map snd (WEIGHTS default_config)) = 1"
    by (simp add: default_config_def)
  from weights_validated_at_construction[of default_config] s show ?thesis by simp
qed

text \<open>
  Claim C3, as stated, at the profile without any field: \<open>analyze_user_risk_profile\<close> of
  \<open>risk_assessment.py\<close> raises \<open>TypeError\<close> (the age is \<open>None\<close>) and returns no fallback.
\<close>

theorem scoring_exception_counterexample:
  "analyze_user_risk_profile [] = Inl TypeError"
  by (simp add: analyze_user_risk_profile_def dict_get_def calculate_risk_score_def
      age_factor_of_def as_num_def)

text \<open>
  Claim C3, amended. In the engine every exception of the scoring is caught: the method
  returns the default profile (score 0.3, Conservative, debt 70, equity 30) with its error
  flag, and the flag is set exactly when the body raised. The function
  \<open>analyze_user_risk_profile\<close> of \<open>risk_assessment.py\<close> has no handler: an exception of
  \<open>calculate_risk_score\<close> is its own.
\<close>

theorem scoring_failure_falls_back:
  "(\<forall>e. risk_score_body B cfg p = Inl e \<longrightarrow>
        engine_calculate_risk_score B cfg p = get_default_conservative_profile) \<and>
   (error (engine_calculate_risk_score B cfg p) \<noteq> None \<longleftrightarrow>
      (\<exists>e. risk_score_body B cfg p = Inl e)) \<and>
   result_risk_score get_default_conservative_profile = 0.3 \<and>
   result_risk_category get_default_conservative_profile = ''Conservative'' \<and>
   debt_allocation get_default_conservative_profile = 70 \<and>
   equity_allocation get_default_conservative_profile = 30 \<and>
   error get_default_conservative_profile =
     Some ''Used default conservative profile due to calculation error'' \<and>
   (\<forall>e. calculate_risk_score (dict_get u ''age'' PNone) (dict_get u ''income'' PNone)
          (dict_get u ''current_savings'' PNone) (dict_get u ''monthly_surplus'' PNone)
          (dict_get u ''goals'' (PDict [])) (dict_get u ''risk_tolerance'' (PNum 3))
          (dict_get u ''weights'' PNone) = Inl e \<longrightarrow>
        analyze_user_risk_profile u = Inl e)"
proof -
  have fb: "engine_calculate_risk_score B cfg p = get_default_conservative_profile"
    if "risk_score_body B cfg p = Inl e" for e
    using that by (simp add: engine_calculate_risk_score_def)
  have flag: "error (engine_calculate_risk_score B cfg p) \<noteq> None \<longleftrightarrow>
      (\<exists>e. risk_score_body B cfg p = Inl e)"
  proof (cases "risk_score_body B cfg p")
    case (Inl e)
    then show ?thesis
      by (simp add: engine_calculate_risk_score_def get_default_conservative_profile_def)
  next
    case (Inr r)
    with risk_score_body_error[OF Inr] show ?thesis
      by (simp add: engine_calculate_risk_score_def)
  qed
  have dflt: "result_risk_score get_default_conservative_profile = 0.3"
    "result_risk_category get_default_conservative_profile = ''Conservative''"
    "debt_allocation get_default_conservative_profile = 70"
    "equity_allocation get_default_conservative_profile = 30"
    "error get_default_conservative_profile =
       Some ''Used default conservative profile due to calculation error''"
    by (simp_all add: get_default_conservative_profile_def)
  have through: "analyze_user_risk_profile u = Inl e"
    if "calculate_risk_score (dict_get u ''age'' PNone) (dict_get u ''income'' PNone)
          (dict_get u ''current_savings'' PNone) (dict_get u ''monthly_surplus'' PNone)
          (dict_get u ''goals'' (PDict [])) (dict_get u ''risk_tolerance'' (PNum 3))
          (dict_get u ''weights'' PNone) = Inl e" for e
    using that by (simp add: analyze_user_risk_profile_def Let_def)
  from fb flag dflt through show ?thesis by blast
qed

theorem scoring_failure_falls_back_witness:
  "\<forall>B.
     risk_score_body B default_config [(''current_savings'', PStr ''all of it'')] = Inl TypeError \<and>
     engine_calculate_risk_score B default_config [(''current_savings'', PStr ''all of it'')] =
       \<lparr>result_risk_score = 0.3, result_risk_category = ''Conservative'', debt_allocation = 70,
        equity_allocation = 30, factor_breakdown = [], weighted_contributions = [],
        error = Some ''Used default conservative profile due to calculation error''\<rparr> \<and>
     analyze_user_risk_profile [] = Inl TypeError"
proof
  fix B
  have b: "risk_score_body B default_config [(''current_savings'', PStr ''all of it'')] = Inl TypeError"
    by (simp add: risk_score_body_def dict_get_def validate_age_def py_int_def
        validate_income_def py_float_def max_with_zero_def as_num_def)
  have c: "calculate_risk_score (dict_get [] ''age'' PNone) (dict_get [] ''income'' PNone)
          (dict_get [] ''current_savings'' PNone) (dict_get [] ''monthly_surplus'' PNone)
          (dict_get [] ''goals'' (PDict [])) (dict_get [] ''risk_tolerance'' (PNum 3))
          (dict_get [] ''weights'' PNone) = Inl TypeError"
    by (simp add: dict_get_def calculate_risk_score_def age_factor_of_def as_num_def)
  from scoring_failure_falls_back[of B default_config
      "[(''current_savings'', PStr ''all of it'')]" "[]"] b c
  show "risk_score_body B default_config [(''current_savings'', PStr ''all of it'')] = Inl TypeError \<and>
     engine_calculate_risk_score B default_config [(''current_savings'', PStr ''all of it'')] =
       \<lparr>result_risk_score = 0.3, result_risk_category = ''Conservative'', debt_allocation = 70,
        equity_allocation = 30, factor_breakdown = [], weighted_contributions = [],
        error = Some ''Used default conservative profile due to calculation error''\<rparr> \<and>
     analyze_user_risk_profile [] = Inl TypeError"
    by (simp add: get_default_conservative_profile_def)
qed

lemma round_half_even_bounds:
  assumes "of_int a \<le> y" and "y \<le> of_int b"
  shows "a \<le> round_half_even y \<and> round_half_even y \<le> b"
proof -
  have lo: "a \<le> \<lfloor>y\<rfloor>" using assms(1) by (simp add: le_floor_iff)
  have hi: "\<lfloor>y\<rfloor> \<le> b" using assms(2) floor_mono[of y "of_int b"] by simp
  have top: "y - of_int \<lfloor>y\<rfloor> = 0" if "\<lfloor>y\<rfloor> = b"
  proof -
    have "of_int b \<le> y" using that by (metis of_int_floor_le)
    with assms(2) have "y = of_int b" by simp
    then show ?thesis by simp
  qed
  show ?thesis
  proof (cases "\<lfloor>y\<rfloor> = b")
    case True
    with top lo show ?thesis by (simp add: round_half_even_def Let_def)
  next
    case False
    with hi have "\<lfloor>y\<rfloor> + 1 \<le> b" by simp
    with lo hi show ?thesis by (auto simp: round_half_even_def Let_def)
  qed
qed

lemma py_round_unit:
  assumes "0 \<le> x" and "x \<le> 1"
  shows "0 \<le> py_round x 3 \<and> py_round x 3 \<le> 1"
proof -
  have a: "of_int 0 \<le> x * 10 ^ 3" using assms by simp
  have b: "x * 10 ^ 3 \<le> of_int 1000" using assms by simp
  from round_half_even_bounds[OF a b]
  have "0 \<le> round_half_even (x * 10 ^ 3)" "round_half_even (x * 10 ^ 3) \<le> 1000" by simp_all
  then have "0 \<le> (of_int (round_half_even (x * 10 ^ 3)) :: real)"
    "(of_int (round_half_even (x * 10 ^ 3)) :: real) \<le> 1000" by simp_all
  then show ?thesis by (simp add: py_round_def)
qed

lemma clamp_unit: "0 \<le> min (max (x::real) 0) 1 \<and> min (max x 0) 1 \<le> 1"
  by simp

lemma calculate_weighted_score_InrD:
  assumes "calculate_weighted_score w [f1, f2, f3, f4, f5, f6] = Inr s"
  shows "\<exists>w1 w2 w3 w4 w5 w6.
           weight_of w ''age_factor'' = Inr w1 \<and> weight_of w ''income_factor'' = Inr w2 \<and>
           weight_of w ''timeline_factor'' = Inr w3 \<and> weight_of w ''surplus_factor'' = Inr w4 \<and>
           weight_of w ''savings_factor'' = Inr w5 \<and>
           weight_of w ''risk_tolerance_factor'' = Inr w6 \<and>
           s = min (max (w1 * f1 + w2 * f2 + w3 * f3 + w4 * f4 + w5 * f5 + w6 * f6) 0) 1"
  using assms
  unfolding calculate_weighted_score_def factor_names_def
  apply (simp add: weighted_term_weight_of)
  apply (elim then_do_InrE)
  apply (auto simp: add.assoc)
  done

lemma calculate_risk_score_InrD:
  assumes "calculate_risk_score age income cs ms goals tol weights = Inr s"
  shows "\<exists>inc af sf vf tf lf w1 w2 w3 w4 w5 w6.
           as_num income = Inr inc \<and> age_factor_of age = Inr af \<and>
           surplus_factor_of ms inc = Inr sf \<and> savings_factor_of cs inc = Inr vf \<and>
           timeline_factor_of goals = Inr tf \<and> tolerance_factor_of tol = Inr lf \<and>
           weight_of (if truthy weights then weights else default_weights) ''age'' = Inr w1 \<and>
           weight_of (if truthy weights then weights else default_weights) ''income'' = Inr w2 \<and>
           weight_of (if truthy weights then weights else default_weights) ''timeline'' = Inr w3 \<and>
           weight_of (if truthy weights then weights else default_weights) ''surplus'' = Inr w4 \<and>
           weight_of (if truthy weights then weights else default_weights) ''savings'' = Inr w5 \<and>
           weight_of (if truthy weights then weights else default_weights) ''tolerance'' = Inr w6 \<and>
           s = min (max (w1 * af + w2 * income_factor_of inc + w3 * tf + w4 * sf + w5 * vf
                         + w6 * lf) 0) 1"
  using assms
  unfolding calculate_risk_score_def Let_def weighted_term_weight_of
  apply (elim then_do_InrE)
  apply (simp split del: if_split)
  done

lemma engine_score_unit:
  "0 \<le> result_risk_score (engine_calculate_risk_score B cfg p) \<and>
   result_risk_score (engine_calculate_risk_score B cfg p) \<le> 1"
proof (cases "risk_score_body B cfg p")
  case (Inl e)
  then show ?thesis
    by (simp add: engine_calculate_risk_score_def get_default_conservative_profile_def)
next
  case (Inr r)
  from Inr obtain f1 f2 f3 f4 f5 f6 w sc where
    sc: "calculate_weighted_score w [f1, f2, f3, f4, f5, f6] = Inr sc" and
    r: "result_risk_score r = py_round sc 3"
    unfolding risk_score_body_def Let_def
    apply (elim then_do_InrE)
    apply (simp add: split_beta)
    apply (elim then_do_InrE)
    apply auto
    done
  from calculate_weighted_score_InrD[OF sc] have "0 \<le> sc \<and> sc \<le> 1" by auto
  with py_round_unit[of sc] r Inr show ?thesis
    by (simp add: engine_calculate_risk_score_def)
qed
lemma months_to_years_returns:
  assumes "\<forall>k \<in> set ks. \<exists>m. k = PNum m \<and> 0 \<le> m"
  shows "\<exists>ys. months_to_years ks = Inr ys \<and> length ys = length ks \<and> (\<forall>y \<in> set ys. 0 \<le> y)"
  using assms
proof (induction ks)
  case Nil
  then show ?case by simp
next
  case (Cons k ks)
  then obtain m where m: "k = PNum m" "0 \<le> m" by auto
  from Cons obtain ys where ys: "months_to_years ks = Inr ys" "length ys = length ks"
    "\<forall>y \<in> set ys. 0 \<le> y" by auto
  show ?case using m ys by (simp add: as_num_def)
qed

lemma ln_succ_nonzero: "0 < x \<Longrightarrow> ln (1 + x) \<noteq> (0::real)"
  by simp

lemma timeline_from_goals_returns:
  assumes "\<forall>k \<in> fst ` set g. \<exists>m. k = PNum m \<and> 0 \<le> m"
  shows "\<exists>f. timeline_from_goals (PDict g) = Inr f"
proof -
  from assms have "\<forall>k \<in> set (map fst g). \<exists>m. k = PNum m \<and> 0 \<le> m" by simp
  from months_to_years_returns[OF this] obtain ys where
    ys: "months_to_years (map fst g) = Inr ys" "\<forall>y \<in> set ys. 0 \<le> y" by blast
  have "0 \<le> sum_list ys" using ys(2) by (simp add: sum_list_nonneg)
  then have avg: "0 \<le> sum_list ys / real (length ys)" by simp
  then have l: "log1p (sum_list ys / real (length ys)) = Inr (ln (1 + sum_list ys / real (length ys)))"
    by (simp add: log1p_def)
  have b: "log1p 30 = Inr (ln 31)" by (simp add: log1p_def)
  show ?thesis
    by (simp add: timeline_from_goals_def goal_keys_def ys(1) l b py_div_def)
qed

lemma timeline_factor_dict:
  "timeline_factor_of (PDict g) = (if g = [] then Inr 0.5 else timeline_from_goals (PDict g))"
  "calculate_timeline_factor (PDict g) =
     (if g = [] then Inr 0.5 else timeline_from_goals (PDict g))"
  by (simp_all add: timeline_factor_of_def calculate_timeline_factor_def truthy_def)

lemma timeline_factor_returns:
  assumes "\<forall>k \<in> fst ` set g. \<exists>m. k = PNum m \<and> 0 \<le> m"
  shows "\<exists>f. timeline_factor_of (PDict g) = Inr f \<and> calculate_timeline_factor (PDict g) = Inr f"
proof (cases "g = []")
  case True
  then show ?thesis by (intro exI[of _ "0.5"]) (simp add: timeline_factor_dict)
next
  case False
  with timeline_from_goals_returns[OF assms] show ?thesis by (simp add: timeline_factor_dict)
qed

lemma surplus_factor_of_returns: "\<exists>f. surplus_factor_of (PNum ms) i = Inr f"
  by (simp add: surplus_factor_of_def as_num_def log1p_def py_div_def Let_def)

lemma savings_factor_of_returns:
  assumes "0 \<le> cs"
  shows "\<exists>f. savings_factor_of (PNum cs) i = Inr f"
proof -
  define mi where "mi = (if 0 < i then i / 12 else 1)"
  have mi: "0 < mi" by (simp add: mi_def)
  have d: "py_div cs mi = Inr (cs / mi)" using mi by (simp add: py_div_def)
  have "0 \<le> cs / mi" using assms mi by simp
  then have l: "log1p (cs / mi) = Inr (ln (1 + cs / mi))" by (simp add: log1p_def)
  have b: "log1p 60 = Inr (ln 61)" by (simp add: log1p_def)
  have e: "py_div (ln (1 + cs / mi)) (ln 61) = Inr (ln (1 + cs / mi) / ln 61)"
    by (simp add: py_div_def)
  show ?thesis
    unfolding savings_factor_of_def Let_def mi_def[symmetric]
    by (simp add: as_num_def d l b e)
qed

lemma default_weights_lookup:
  "weight_of default_weights ''age'' = Inr 0.25"
  "weight_of default_weights ''income'' = Inr 0.20"
  "weight_of default_weights ''timeline'' = Inr 0.20"
  "weight_of default_weights ''surplus'' = Inr 0.15"
  "weight_of default_weights ''savings'' = Inr 0.10"
  "weight_of default_weights ''tolerance'' = Inr 0.10"
  by (simp_all add: weight_of_def default_weights_def subscript_def as_num_def)

lemma calculate_risk_score_returns:
  assumes "0 \<le> cs" and "\<forall>k \<in> fst ` set g. \<exists>m. k = PNum m \<and> 0 \<le> m"
  shows "\<exists>s. calculate_risk_score (PNum a) (PNum i) (PNum cs) (PNum ms) (PDict g) (PNum t) PNone
           = Inr s"
proof -
  obtain sf where sf: "surplus_factor_of (PNum ms) i = Inr sf"
    using surplus_factor_of_returns by blast
  obtain vf where vf: "savings_factor_of (PNum cs) i = Inr vf"
    using savings_factor_of_returns[OF assms(1)] by blast
  obtain tf where tf: "timeline_factor_of (PDict g) = Inr tf"
    using timeline_factor_returns[OF assms(2)] by blast
  show ?thesis
    unfolding calculate_risk_score_def Let_def weighted_term_weight_of
    by (simp add: age_factor_of_def as_num_def sf vf tf tolerance_factor_of_def truthy_def
        default_weights_lookup)
qed


lemma custom_weights_lookup:
  "weight_of half_weights ''age_factor'' = Inr 0.125"
  "weight_of half_weights ''income_factor'' = Inr 0.1"
  "weight_of half_weights ''timeline_factor'' = Inr 0.1"
  "weight_of half_weights ''surplus_factor'' = Inr 0.075"
  "weight_of half_weights ''savings_factor'' = Inr 0.05"
  "weight_of half_weights ''risk_tolerance_factor'' = Inr 0.05"
  "weight_of fivefold_weights ''age_factor'' = Inr 1.25"
  "weight_of fivefold_weights ''income_factor'' = Inr 1"
  "weight_of fivefold_weights ''timeline_factor'' = Inr 1"
  "weight_of fivefold_weights ''surplus_factor'' = Inr 0.75"
  "weight_of fivefold_weights ''savings_factor'' = Inr 0.5"
  "weight_of fivefold_weights ''risk_tolerance_factor'' = Inr 0.5"
  by (simp_all add: weight_of_def half_weights_def fivefold_weights_def subscript_def as_num_def)



text \<open>
  Claim C8. Whenever \<open>calculate_risk_score\<close> returns, for any age, income, savings, surplus,
  goals, tolerance and weights, its result is the sum of the six factor scores, each times
  its weight, clamped to \<open>[0, 1]\<close>; so is the result of \<open>_calculate_weighted_score\<close> of the
  engine; and the score the engine reports, rounded or the fallback 0.3, lies in \<open>[0, 1]\<close>
  for every profile. The function does return on every profile of numbers with savings of
  at least 0 and goals at months of at least 0, under the default weights.
\<close>

theorem risk_score_clamped_weighted_sum:
  "(calculate_risk_score age income cs ms goals tol weights = Inr s \<longrightarrow>
      (\<exists>inc af sf vf tf lf w1 w2 w3 w4 w5 w6.
          as_num income = Inr inc \<and> age_factor_of age = Inr af \<and>
          surplus_factor_of ms inc = Inr sf \<and> savings_factor_of cs inc = Inr vf \<and>
          timeline_factor_of goals = Inr tf \<and> tolerance_factor_of tol = Inr lf \<and>
          weight_of (if truthy weights then weights else default_weights) ''age'' = Inr w1 \<and>
          weight_of (if truthy weights then weights else default_weights) ''income'' = Inr w2 \<and>
          weight_of (if truthy weights then weights else default_weights) ''timeline'' = Inr w3 \<and>
          weight_of (if truthy weights then weights else default_weights) ''surplus'' = Inr w4 \<and>
          weight_of (if truthy weights then weights else default_weights) ''savings'' = Inr w5 \<and>
          weight_of (if truthy weights then weights else default_weights) ''tolerance'' = Inr w6 \<and>
          s = min (max (w1 * af + w2 * income_factor_of inc + w3 * tf + w4 * sf + w5 * vf
                        + w6 * lf) 0) 1) \<and>
      0 \<le> s \<and> s \<le> 1) \<and>
   (calculate_weighted_score w [f1, f2, f3, f4, f5, f6] = Inr s' \<longrightarrow>
      (\<exists>w1 w2 w3 w4 w5 w6.
          weight_of w ''age_factor'' = Inr w1 \<and> weight_of w ''income_factor'' = Inr w2 \<and>
          weight_of w ''timeline_factor'' = Inr w3 \<and> weight_of w ''surplus_factor'' = Inr w4 \<and>
          weight_of w ''savings_factor'' = Inr w5 \<and>
          weight_of w ''risk_tolerance_factor'' = Inr w6 \<and>
          s' = min (max (w1 * f1 + w2 * f2 + w3 * f3 + w4 * f4 + w5 * f5 + w6 * f6) 0) 1) \<and>
      0 \<le> s' \<and> s' \<le> 1) \<and>
   0 \<le> result_risk_score (engine_calculate_risk_score B cfg p) \<and>
   result_risk_score (engine_calculate_risk_score B cfg p) \<le> 1 \<and>
   (0 \<le> c \<and> (\<forall>k \<in> fst ` set g. \<exists>m. k = PNum m \<and> 0 \<le> m) \<longrightarrow>
      (\<exists>x. calculate_risk_score (PNum a) (PNum i) (PNum c) (PNum u) (PDict g) (PNum t) PNone
             = Inr x))"
proof -
  have simple: "calculate_risk_score age income cs ms goals tol weights = Inr s \<longrightarrow>
      (\<exists>inc af sf vf tf lf w1 w2 w3 w4 w5 w6.
          as_num income = Inr inc \<and> age_factor_of age = Inr af \<and>
          surplus_factor_of ms inc = Inr sf \<and> savings_factor_of cs inc = Inr vf \<and>
          timeline_factor_of goals = Inr tf \<and> tolerance_factor_of tol = Inr lf \<and>
          weight_of (if truthy weights then weights else default_weights) ''age'' = Inr w1 \<and>
          weight_of (if truthy weights then weights else default_weights) ''income'' = Inr w2 \<and>
          weight_of (if truthy weights then weights else default_weights) ''timeline'' = Inr w3 \<and>
          weight_of (if truthy weights then weights else default_weights) ''surplus'' = Inr w4 \<and>
          weight_of (if truthy weights then weights else default_weights) ''savings'' = Inr w5 \<and>
          weight_of (if truthy weights then weights else default_weights) ''tolerance'' = Inr w6 \<and>
          s = min (max (w1 * af + w2 * income_factor_of inc + w3 * tf + w4 * sf + w5 * vf
                        + w6 * lf) 0) 1) \<and>
      0 \<le> s \<and> s \<le> 1"
  proof
    assume r: "calculate_risk_score age income cs ms goals tol weights = Inr s"
    note d = calculate_risk_score_InrD[OF r]
    have u: "0 \<le> s \<and> s \<le> 1" using d by (elim exE conjE) simp
    show "(\<exists>inc af sf vf tf lf w1 w2 w3 w4 w5 w6.
          as_num income = Inr inc \<and> age_factor_of age = Inr af \<and>
          surplus_factor_of ms inc = Inr sf \<and> savings_factor_of cs inc = Inr vf \<and>
          timeline_factor_of goals = Inr tf \<and> tolerance_factor_of tol = Inr lf \<and>
          weight_of (if truthy weights then weights else default_weights) ''age'' = Inr w1 \<and>
          weight_of (if truthy weights then weights else default_weights) ''income'' = Inr w2 \<and>
          weight_of (if truthy weights then weights else default_weights) ''timeline'' = Inr w3 \<and>
          weight_of (if truthy weights then weights else default_weights) ''surplus'' = Inr w4 \<and>
          weight_of (if truthy weights then weights else default_weights) ''savings'' = Inr w5 \<and>
          weight_of (if truthy weights then weights else default_weights) ''tolerance'' = Inr w6 \<and>
          s = min (max (w1 * af + w2 * income_factor_of inc + w3 * tf + w4 * sf + w5 * vf
                        + w6 * lf) 0) 1) \<and>
      0 \<le> s \<and> s \<le> 1"
      by (rule conjI[OF d u])
  qed
  have weighted: "calculate_weighted_score w [f1, f2, f3, f4, f5, f6] = Inr s' \<longrightarrow>
      (\<exists>w1 w2 w3 w4 w5 w6.
          weight_of w ''age_factor'' = Inr w1 \<and> weight_of w ''income_factor'' = Inr w2 \<and>
          weight_of w ''timeline_factor'' = Inr w3 \<and> weight_of w ''surplus_factor'' = Inr w4 \<and>
          weight_of w ''savings_factor'' = Inr w5 \<and>
          weight_of w ''risk_tolerance_factor'' = Inr w6 \<and>
          s' = min (max (w1 * f1 + w2 * f2 + w3 * f3 + w4 * f4 + w5 * f5 + w6 * f6) 0) 1) \<and>
      0 \<le> s' \<and> s' \<le> 1"
  proof
    assume r: "calculate_weighted_score w [f1, f2, f3, f4, f5, f6] = Inr s'"
    note d = calculate_weighted_score_InrD[OF r]
    have u: "0 \<le> s' \<and> s' \<le> 1" using d by (elim exE conjE) simp
    show "(\<exists>w1 w2 w3 w4 w5 w6.
          weight_of w ''age_factor'' = Inr w1 \<and> weight_of w ''income_factor'' = Inr w2 \<and>
          weight_of w ''timeline_factor'' = Inr w3 \<and> weight_of w ''surplus_factor'' = Inr w4 \<and>
          weight_of w ''savings_factor'' = Inr w5 \<and>
          weight_of w ''risk_tolerance_factor'' = Inr w6 \<and>
          s' = min (max (w1 * f1 + w2 * f2 + w3 * f3 + w4 * f4 + w5 * f5 + w6 * f6) 0) 1) \<and>
      0 \<le> s' \<and> s' \<le> 1"
      by (rule conjI[OF d u])
  qed
  have total: "0 \<le> c \<and> (\<forall>k \<in> fst ` set g. \<exists>m. k = PNum m \<and> 0 \<le> m) \<longrightarrow>
      (\<exists>x. calculate_risk_score (PNum a) (PNum i) (PNum c) (PNum u) (PDict g) (PNum t) PNone
             = Inr x)"
    using calculate_risk_score_returns[of c g a i u t] by blast
  note e = engine_score_unit[of B cfg p]
  show ?thesis
    by (rule conjI[OF simple], rule conjI[OF weighted], rule conjI[OF conjunct1[OF e]],
        rule conjI[OF conjunct2[OF e]], rule total)
qed

theorem risk_score_clamped_weighted_sum_witness:
  "calculate_risk_score (PNum 30) (PNum 0) (PNum 0) (PNum 0) (PDict []) (PNum 3) PNone
     = Inr 0.35 \<and>
   calculate_risk_score (PNum 30) (PNum 0) (PNum 0) (PNum 0) (PDict []) (PNum 3)
     fivefold_simple_weights = Inr 1 \<and>
   (\<exists>x. calculate_risk_score (PNum 25) (PNum 80000) (PNum 200000) (PNum 25000)
          young_investor_goals (PNum 5) PNone = Inr x \<and> 0 \<le> x \<and> x \<le> 1) \<and>
   calculate_weighted_score fivefold_weights [1, 1, 1, 1, 1, 1] = Inr 1"
proof -
  have f: "age_factor_of (PNum 30) = Inr 0.8" "as_num (PNum 0) = Inr 0"
    "surplus_factor_of (PNum 0) 0 = Inr 0" "savings_factor_of (PNum 0) 0 = Inr 0"
    "timeline_factor_of (PDict []) = Inr 0.5" "tolerance_factor_of (PNum 3) = Inr 0.5"
    "income_factor_of 0 = 0"
    by (simp_all add: age_factor_of_def as_num_def surplus_factor_of_def savings_factor_of_def
        log1p_def py_div_def timeline_factor_dict tolerance_factor_of_def income_factor_of_def)
  have l5: "weight_of fivefold_simple_weights ''age'' = Inr 1.25"
    "weight_of fivefold_simple_weights ''income'' = Inr 1"
    "weight_of fivefold_simple_weights ''timeline'' = Inr 1"
    "weight_of fivefold_simple_weights ''surplus'' = Inr 0.75"
    "weight_of fivefold_simple_weights ''savings'' = Inr 0.5"
    "weight_of fivefold_simple_weights ''tolerance'' = Inr 0.5"
    by (simp_all add: weight_of_def fivefold_simple_weights_def subscript_def as_num_def)
  have tr: "truthy fivefold_simple_weights"
    by (simp add: truthy_def fivefold_simple_weights_def)
  have a: "calculate_risk_score (PNum 30) (PNum 0) (PNum 0) (PNum 0) (PDict []) (PNum 3) PNone
     = Inr 0.35"
    unfolding calculate_risk_score_def Let_def weighted_term_weight_of
    by (simp add: f truthy_def default_weights_lookup)
  have b: "calculate_risk_score (PNum 30) (PNum 0) (PNum 0) (PNum 0) (PDict []) (PNum 3)
     fivefold_simple_weights = Inr 1"
    unfolding calculate_risk_score_def Let_def weighted_term_weight_of
    by (simp add: f tr l5)
  have g: "0 \<le> (200000::real) \<and>
     (\<forall>k \<in> fst ` set [(PNum 60, PNum 500000), (PNum 120, PNum 1000000)]. \<exists>m. k = PNum m \<and> 0 \<le> m)"
    by simp
  have c: "calculate_weighted_score fivefold_weights [1, 1, 1, 1, 1, 1] = Inr 1"
    by (simp add: calculate_weighted_score_eval[OF custom_weights_lookup(7-12)])
  note T = risk_score_clamped_weighted_sum[of "PNum 25" "PNum 80000" "PNum 200000" "PNum 25000"
      young_investor_goals "PNum 5" PNone _ fivefold_weights 1 1 1 1 1 1 1 _ _ _ 200000
      "[(PNum 60, PNum 500000), (PNum 120, PNum 1000000)]" 25 80000 25000 5]
  from T[THEN conjunct2, THEN conjunct2, THEN conjunct2, THEN conjunct2, THEN mp, OF g]
  obtain x where x: "calculate_risk_score (PNum 25) (PNum 80000) (PNum 200000) (PNum 25000)
          young_investor_goals (PNum 5) PNone = Inr x"
    unfolding young_investor_goals_def by (elim exE)
  have u: "0 \<le> x \<and> x \<le> 1"
    by (rule risk_score_clamped_weighted_sum[of "PNum 25" "PNum 80000" "PNum 200000"
          "PNum 25000" young_investor_goals "PNum 5" PNone x, THEN conjunct1, THEN mp, OF x,
          THEN conjunct2])
  have ex: "\<exists>x. calculate_risk_score (PNum 25) (PNum 80000) (PNum 200000) (PNum 25000)
          young_investor_goals (PNum 5) PNone = Inr x \<and> 0 \<le> x \<and> x \<le> 1"
    using x u by (intro exI[of _ x] conjI) simp_all
  show ?thesis
    by (rule conjI[OF a], rule conjI[OF b], rule conjI[OF ex], rule c)
qed



end
